theory Spec2Isabelle
  imports Main
begin

section \<open>Python values, exceptions and the library interface\<close>

text \<open>
  The program is \<^verbatim>\<open>fec_monitor.py\<close>. It decodes a JSON document with
  \<^verbatim>\<open>response.json()\<close> and works on the resulting Python objects without checking
  their types, so the model keeps them as dynamically typed values. The type parameter
  \<open>'f\<close> stands for Python's \<^verbatim>\<open>float\<close>. A \<^verbatim>\<open>dict\<close> is the list of its items in
  the order of insertion; a lookup finds the first item with the key (a decoded
  document has no key twice).
\<close>

datatype 'f json =
    JNull
  | JBool bool
  | JInt int
  | JFloat 'f
  | JStr string
  | JArr "'f json list"
  | JObj "(string \<times> 'f json) list"

text \<open>
  Exceptions are values. \<open>RequestException\<close> stands for the class
  \<^verbatim>\<open>requests.exceptions.RequestException\<close> and its subclasses (connection errors,
  \<^verbatim>\<open>HTTPError\<close>, the \<^verbatim>\<open>JSONDecodeError\<close> of \<^verbatim>\<open>requests\<close>); its argument is
  \<^verbatim>\<open>str(e)\<close>. \<open>TypeError\<close> and \<open>ValueError\<close> record the operation that raised
  and the offending value. \<open>ExternalError\<close> is an exception raised by the secret
  manager or by the SMTP session, again with its \<^verbatim>\<open>str(e)\<close>.
\<close>

datatype 'f exn =
    RequestException string
  | KeyError string
  | TypeError string "'f json"
  | ValueError string "'f json"
  | OverflowError
  | ExternalError string

text \<open>
  A naive \<^verbatim>\<open>datetime\<close> is the number of microseconds since
  \<^verbatim>\<open>0001-01-01T00:00:00\<close>: comparison of naive datetimes and subtraction of a
  \<^verbatim>\<open>timedelta\<close> are comparison and subtraction of these numbers.
\<close>

type_synonym datetime = int

text \<open>
  What \<^verbatim>\<open>send_email\<close> puts into the MIME message: the three headers and the HTML
  text.
\<close>

record email =
  subject :: string
  sender :: "string option"
  recipient :: string
  html_part :: string

text \<open>
  The functions of the Python library whose text is not part of the repository are
  parameters of the model. An \<open>option\<close> result is \<open>None\<close> where the library function
  raises (\<^verbatim>\<open>ValueError\<close> for the parsers, \<^verbatim>\<open>OverflowError\<close> for
  \<^verbatim>\<open>float\<close> of a huge \<^verbatim>\<open>int\<close>). The field \<open>mime_error\<close> is the other way
  round: it is the exception that building the MIME message raises (\<^verbatim>\<open>MIMEText\<close>
  raises \<^verbatim>\<open>UnicodeEncodeError\<close> on text it cannot encode), and \<open>None\<close> when the
  message is built.
\<close>

record 'f pylib =
  strptime :: "string \<Rightarrow> string \<Rightarrow> datetime option"
  strftime :: "datetime \<Rightarrow> string \<Rightarrow> string"
  float_of_str :: "string \<Rightarrow> 'f option"
  float_of_int :: "int \<Rightarrow> 'f option"
  float_nonzero :: "'f \<Rightarrow> bool"
  format_amount :: "'f \<Rightarrow> string"
  int_of_str :: "string \<Rightarrow> int option"
  str_of :: "'f json \<Rightarrow> string"
  str_exn :: "'f exn \<Rightarrow> string"
  mime_error :: "email \<Rightarrow> 'f exn option"

subsection \<open>Operations on Python values\<close>

text \<open>\<^verbatim>\<open>v[k]\<close> for a string key \<open>k\<close>: only a \<^verbatim>\<open>dict\<close> accepts it.\<close>

fun getitem :: "'f json \<Rightarrow> string \<Rightarrow> 'f exn + 'f json" where
  "getitem (JObj kvs) k =
     (case map_of kvs k of None \<Rightarrow> Inl (KeyError k) | Some v \<Rightarrow> Inr v)"
| "getitem v k = Inl (TypeError ''getitem'' v)"

text \<open>
  \<^verbatim>\<open>for x in v\<close>: a list yields its elements, a \<^verbatim>\<open>dict\<close> its keys, a string its
  characters; the other values are not iterable.
\<close>

fun iter :: "'f json \<Rightarrow> 'f exn + 'f json list" where
  "iter (JArr xs) = Inr xs"
| "iter (JObj kvs) = Inr (map (\<lambda>kv. JStr (fst kv)) kvs)"
| "iter (JStr s) = Inr (map (\<lambda>c. JStr [c]) s)"
| "iter v = Inl (TypeError ''iter'' v)"

text \<open>Truth value of a Python object, as \<^verbatim>\<open>or\<close> tests it.\<close>

fun truthy :: "'f pylib \<Rightarrow> 'f json \<Rightarrow> bool" where
  "truthy lib JNull = False"
| "truthy lib (JBool b) = b"
| "truthy lib (JInt i) = (i \<noteq> 0)"
| "truthy lib (JFloat x) = float_nonzero lib x"
| "truthy lib (JStr s) = (s \<noteq> [])"
| "truthy lib (JArr xs) = (xs \<noteq> [])"
| "truthy lib (JObj kvs) = (kvs \<noteq> [])"

text \<open>\<^verbatim>\<open>datetime.strptime(v, fmt)\<close>: the first argument must be a \<^verbatim>\<open>str\<close>.\<close>

fun py_strptime :: "'f pylib \<Rightarrow> 'f json \<Rightarrow> string \<Rightarrow> 'f exn + datetime" where
  "py_strptime lib (JStr s) fmt =
     (case strptime lib s fmt of None \<Rightarrow> Inl (ValueError ''strptime'' (JStr s))
      | Some t \<Rightarrow> Inr t)"
| "py_strptime lib v fmt = Inl (TypeError ''strptime'' v)"

text \<open>\<^verbatim>\<open>float(v)\<close>.\<close>

fun py_float :: "'f pylib \<Rightarrow> 'f json \<Rightarrow> 'f exn + 'f" where
  "py_float lib (JFloat x) = Inr x"
| "py_float lib (JInt i) =
     (case float_of_int lib i of None \<Rightarrow> Inl OverflowError | Some x \<Rightarrow> Inr x)"
| "py_float lib (JBool b) =
     (case float_of_int lib (if b then 1 else 0) of None \<Rightarrow> Inl OverflowError
      | Some x \<Rightarrow> Inr x)"
| "py_float lib (JStr s) =
     (case float_of_str lib s of None \<Rightarrow> Inl (ValueError ''float'' (JStr s))
      | Some x \<Rightarrow> Inr x)"
| "py_float lib v = Inl (TypeError ''float'' v)"

text \<open>
  Interpolation of a value into an f-string: a \<^verbatim>\<open>str\<close> is inserted as it is, any
  other object through its \<^verbatim>\<open>str()\<close>.
\<close>

fun interpolate :: "'f pylib \<Rightarrow> 'f json \<Rightarrow> string" where
  "interpolate lib (JStr s) = s"
| "interpolate lib v = str_of lib v"

text \<open>
  \<^verbatim>\<open>str(e)\<close>. The exceptions of \<^verbatim>\<open>requests\<close> and of the external services carry
  their message; a \<^verbatim>\<open>KeyError\<close> prints the \<^verbatim>\<open>repr\<close> of the key, and every key this
  program looks up is a literal without quotes in it.
\<close>

fun message :: "'f pylib \<Rightarrow> 'f exn \<Rightarrow> string" where
  "message lib (RequestException m) = m"
| "message lib (ExternalError m) = m"
| "message lib (KeyError k) = [CHR 0x27] @ k @ [CHR 0x27]"
| "message lib e = str_exn lib e"

text \<open>
  Sequencing of two steps that may raise: the second runs on the value of the first,
  and an exception of the first is the exception of both.
\<close>

fun and_then :: "'e + 'a \<Rightarrow> ('a \<Rightarrow> 'e + 'b) \<Rightarrow> 'e + 'b" where
  "and_then (Inl e) f = Inl e"
| "and_then (Inr x) f = f x"

text \<open>
  \<^verbatim>\<open>t - timedelta(days=n)\<close>. The constructor of \<^verbatim>\<open>timedelta\<close> refuses more than
  999999999 days, and the subtraction refuses a result outside the years 1 to 9999
  (3652059 is the ordinal of \<^verbatim>\<open>date.max\<close>); both raise \<^verbatim>\<open>OverflowError\<close>,
  which is the result \<open>None\<close>.
\<close>

definition day_us :: int where
  "day_us = 86400000000"

definition minus_days :: "datetime \<Rightarrow> int \<Rightarrow> datetime option" where
  "minus_days t n =
     (if \<bar>n\<bar> > 999999999 then None
      else let r = t - n * day_us
           in if 0 \<le> r \<and> r < 3652059 * day_us then Some r else None)"

section \<open>Data model\<close>

record Contributor =
  name :: string
  employer :: "string option"

text \<open>
  The dataclass \<^verbatim>\<open>Contribution\<close> declares \<^verbatim>\<open>str\<close> fields but stores whatever the
  response holds. Its field \<^verbatim>\<open>employer\<close> is called \<open>employer_c\<close> here, since
  \<open>Contributor\<close> has a field of the same name.
\<close>

record 'f Contribution =
  date :: datetime
  amount :: 'f
  contributor_name :: "'f json"
  employer_c :: "'f json"
  committee_name :: "'f json"
  load_date :: datetime


text \<open>
  The aggregated mapping is a Python \<^verbatim>\<open>dict\<close>, which keeps its keys in the order
  of their first insertion: an association list, where assigning to a key that is
  present replaces the value in place.
\<close>

fun dict_set :: "('k \<times> 'v) list \<Rightarrow> 'k \<Rightarrow> 'v \<Rightarrow> ('k \<times> 'v) list" where
  "dict_set [] k v = [(k, v)]"
| "dict_set ((k', v') # d) k v =
     (if k' = k then (k', v) # d else (k', v') # dict_set d k v)"

section \<open>The outside world\<close>

text \<open>
  What \<^verbatim>\<open>requests.get\<close> does: it raises a \<^verbatim>\<open>RequestException\<close> (\<open>Failed\<close>,
  with the message) or returns a response. A response has its status code, the message
  of the \<^verbatim>\<open>HTTPError\<close> that \<^verbatim>\<open>raise_for_status()\<close> raises for it when the status
  is one it rejects, and the result of \<^verbatim>\<open>response.json()\<close>: the decoded document,
  or \<open>Inl\<close> the message of the \<^verbatim>\<open>JSONDecodeError\<close> of \<^verbatim>\<open>requests\<close>, which is a
  \<^verbatim>\<open>RequestException\<close> (since version 2.27 of \<^verbatim>\<open>requests\<close>).
\<close>

datatype 'f http_outcome =
    Failed string
  | Response int string "string + 'f json"

record smtp_config =
  server :: string
  port :: int
  username :: "string option"
  password :: string
  from_email :: "string option"

text \<open>
  What the \<^verbatim>\<open>with smtplib.SMTP(...)\<close> statement does. Either it ends without an
  exception (\<open>Sent\<close>): then \<^verbatim>\<open>send_message\<close> has returned and the server has
  accepted the message. Or an exception leaves it (\<open>Raised\<close>), and the flag tells
  whether the server had accepted the message by then: \<open>False\<close> when connecting,
  \<^verbatim>\<open>starttls\<close>, \<^verbatim>\<open>login\<close> or \<^verbatim>\<open>send_message\<close> failed, \<open>True\<close> when
  \<^verbatim>\<open>send_message\<close> had succeeded and the exit of the \<^verbatim>\<open>with\<close> block raised
  (\<^verbatim>\<open>SMTP.__exit__\<close> sends \<^verbatim>\<open>QUIT\<close> and raises on a reply other than 221).
\<close>

datatype 'f smtp_outcome =
    Sent
  | Raised bool "'f exn"

text \<open>
  The environment of one run: the process environment, the secret manager (whether
  creating its client raises, and what reading a secret by resource name gives,
  decoding included), the clock (the value of the n-th call of
  \<^verbatim>\<open>datetime.now()\<close>), the API (the outcome of the n-th request, which may depend on
  the request) and the SMTP session.
\<close>

record 'f env =
  environ :: "string \<Rightarrow> string option"
  secret_client :: "'f exn option"
  access_secret :: "string \<Rightarrow> 'f exn + string"
  now :: "nat \<Rightarrow> datetime"
  http_get :: "nat \<Rightarrow> string \<Rightarrow> (string \<times> 'f json) list \<Rightarrow> 'f http_outcome"
  smtp_session :: "smtp_config \<Rightarrow> email \<Rightarrow> 'f smtp_outcome"

text \<open>
  The effects of a run so far: how often the clock was read, the requests issued, the
  messages for which an SMTP session was opened, the messages a server accepted, and
  the lines printed.
\<close>

record 'f world =
  clock_reads :: nat
  requests :: "(string \<times> (string \<times> 'f json) list) list"
  attempted :: "email list"
  delivered :: "email list"
  stdout :: "string list"

section \<open>The fetcher: \<^verbatim>\<open>get_fec_contributions\<close>\<close>

definition base_url :: string where
  "base_url = ''https://api.open.fec.gov/v1/schedules/schedule_a/''"

definition query_params ::
  "'f pylib \<Rightarrow> Contributor \<Rightarrow> string \<Rightarrow> datetime \<Rightarrow> datetime \<Rightarrow> (string \<times> 'f json) list" where
  "query_params lib contributor api_key contrib_start_date end_date =
     [(''api_key'', JStr api_key),
      (''contributor_name'', JStr (name contributor)),
      (''contributor_employer'',
         (case employer contributor of None \<Rightarrow> JNull | Some e \<Rightarrow> JStr e)),
      (''min_date'', JStr (strftime lib contrib_start_date ''%m/%d/%Y'')),
      (''max_date'', JStr (strftime lib end_date ''%m/%d/%Y'')),
      (''sort'', JStr ''-contribution_receipt_date''),
      (''per_page'', JInt 100),
      (''is_individual'', JBool True)]"

text \<open>
  The call of the constructor \<^verbatim>\<open>Contribution(...)\<close>: its arguments are evaluated in
  the order they are written, and the first one that raises ends the evaluation.
\<close>

definition make_contribution ::
  "'f pylib \<Rightarrow> 'f json \<Rightarrow> datetime \<Rightarrow> 'f exn + 'f Contribution" where
  "make_contribution lib result ld =
     and_then (getitem result ''contribution_receipt_date'') (\<lambda>d.
     and_then (py_strptime lib d ''%Y-%m-%d'') (\<lambda>dt.
     and_then (getitem result ''contribution_receipt_amount'') (\<lambda>a.
     and_then (py_float lib a) (\<lambda>am.
     and_then (getitem result ''contributor_name'') (\<lambda>cn.
     and_then (getitem result ''contributor_employer'') (\<lambda>em.
     and_then (getitem result ''committee'') (\<lambda>com.
     and_then (getitem com ''name'') (\<lambda>cname.
       Inr \<lparr>date = dt, amount = am, contributor_name = cn,
            employer_c = (if truthy lib em then em else JStr ''Not reported''),
            committee_name = cname, load_date = ld\<rparr>))))))))"

text \<open>
  One iteration of the loop over \<^verbatim>\<open>data['results']\<close>: \<open>Inr None\<close> when the record
  is skipped, \<open>Inr (Some c)\<close> when \<open>c\<close> is appended.
\<close>

definition process_result ::
  "'f pylib \<Rightarrow> datetime \<Rightarrow> 'f json \<Rightarrow> 'f exn + 'f Contribution option" where
  "process_result lib min_load_date result =
     and_then (getitem result ''load_date'') (\<lambda>v.
     and_then (py_strptime lib v ''%Y-%m-%dT%H:%M:%S'') (\<lambda>ld.
       if ld > min_load_date
       then and_then (make_contribution lib result ld) (\<lambda>c. Inr (Some c))
       else Inr None))"

fun collect ::
  "'f pylib \<Rightarrow> datetime \<Rightarrow> 'f Contribution list \<Rightarrow> 'f json list
   \<Rightarrow> 'f exn + 'f Contribution list" where
  "collect lib min_load_date contributions [] = Inr contributions"
| "collect lib min_load_date contributions (result # rest) =
     (case process_result lib min_load_date result of
        Inl e \<Rightarrow> Inl e
      | Inr None \<Rightarrow> collect lib min_load_date contributions rest
      | Inr (Some c) \<Rightarrow> collect lib min_load_date (contributions @ [c]) rest)"

text \<open>
  \<^verbatim>\<open>response.raise_for_status()\<close> raises for the status codes 400 to 599 and for no
  other.
\<close>

definition raise_for_status :: "int \<Rightarrow> string \<Rightarrow> 'f exn option" where
  "raise_for_status status err =
     (if 400 \<le> status \<and> status < 600 then Some (RequestException err) else None)"

text \<open>The body of the \<^verbatim>\<open>try\<close> statement, after \<^verbatim>\<open>requests.get\<close> has answered.\<close>

definition try_block ::
  "'f pylib \<Rightarrow> datetime \<Rightarrow> 'f http_outcome \<Rightarrow> 'f exn + 'f Contribution list" where
  "try_block lib min_load_date outcome =
     (case outcome of
        Failed m \<Rightarrow> Inl (RequestException m)
      | Response status err body \<Rightarrow>
          (case raise_for_status status err of
             Some e \<Rightarrow> Inl e
           | None \<Rightarrow>
              (case body of
                 Inl m \<Rightarrow> Inl (RequestException m)
               | Inr data \<Rightarrow>
                   and_then (getitem data ''results'') (\<lambda>results.
                   and_then (iter results) (\<lambda>rs.
                     collect lib min_load_date [] rs)))))"

text \<open>
  The handler \<^verbatim>\<open>except requests.exceptions.RequestException\<close> prints a line and
  returns the empty list; every other exception leaves the function.
\<close>

definition get_fec_contributions ::
  "'f pylib \<Rightarrow> 'f env \<Rightarrow> Contributor \<Rightarrow> string \<Rightarrow> int \<Rightarrow> int \<Rightarrow> 'f world
   \<Rightarrow> ('f exn + 'f Contribution list) \<times> 'f world" where
  "get_fec_contributions lib ev contributor api_key days_back_load days_back_contrib w =
     (let end_date = now ev (clock_reads w);
          w1 = w\<lparr>clock_reads := Suc (clock_reads w)\<rparr>
      in case minus_days end_date days_back_contrib of
           None \<Rightarrow> (Inl OverflowError, w1)
         | Some contrib_start_date \<Rightarrow>
            (case minus_days end_date days_back_load of
               None \<Rightarrow> (Inl OverflowError, w1)
             | Some min_load_date \<Rightarrow>
                (let params =
                       query_params lib contributor api_key contrib_start_date end_date;
                     outcome = http_get ev (length (requests w1)) base_url params;
                     w2 = w1\<lparr>requests := requests w1 @ [(base_url, params)]\<rparr>
                 in case try_block lib min_load_date outcome of
                      Inr contributions \<Rightarrow> (Inr contributions, w2)
                    | Inl (RequestException m) \<Rightarrow>
                        (Inr [],
                         w2\<lparr>stdout := stdout w2 @
                            [''Error fetching FEC data for '' @ name contributor
                               @ '': '' @ m]\<rparr>)
                    | Inl e \<Rightarrow> (Inl e, w2))))"

text \<open>The defaults of the two keyword parameters.\<close>

definition default_days_back_load :: int where
  "default_days_back_load = 14"

definition default_days_back_contrib :: int where
  "default_days_back_contrib = 180"


section \<open>The digest: \<^verbatim>\<open>format_email_body\<close>\<close>

definition nl :: string where
  "nl = [CHR 0x0A]"

definition sp16 :: string where
  "sp16 = replicate 16 CHR '' ''"

definition sp20 :: string where
  "sp20 = replicate 20 CHR '' ''"

definition table_open :: string where
  "table_open =
     ''<table border='' @ [CHR 0x27] @ ''1'' @ [CHR 0x27] @ '' style='' @ [CHR 0x27]
       @ ''border-collapse: collapse; width: 100%;'' @ [CHR 0x27] @ ''>''"

definition table_header :: string where
  "table_header =
     ''<tr><th>Date</th><th>Amount</th><th>Committee</th><th>Employer</th></tr>''"

text \<open>The triple-quoted f-string appended for one contribution, line by line.\<close>

definition table_row :: "'f pylib \<Rightarrow> 'f Contribution \<Rightarrow> string" where
  "table_row lib contribution =
     nl
     @ sp16 @ ''<tr>'' @ nl
     @ sp20 @ ''<td>'' @ strftime lib (date contribution) ''%Y-%m-%d'' @ ''</td>'' @ nl
     @ sp20 @ ''<td>$'' @ format_amount lib (amount contribution) @ ''</td>'' @ nl
     @ sp20 @ ''<td>'' @ interpolate lib (committee_name contribution) @ ''</td>'' @ nl
     @ sp20 @ ''<td>'' @ interpolate lib (employer_c contribution) @ ''</td>'' @ nl
     @ sp20 @ ''<td>'' @ strftime lib (load_date contribution) ''%Y-%m-%d %H:%M:%S''
            @ ''</td>'' @ nl
     @ sp16 @ ''</tr>'' @ nl
     @ sp16"

fun append_rows :: "'f pylib \<Rightarrow> string \<Rightarrow> 'f Contribution list \<Rightarrow> string" where
  "append_rows lib html [] = html"
| "append_rows lib html (contribution # rest) =
     append_rows lib (html @ table_row lib contribution) rest"

text \<open>One iteration of the loop over the items of the mapping.\<close>

definition append_section ::
  "'f pylib \<Rightarrow> string \<Rightarrow> string \<times> 'f Contribution list \<Rightarrow> string" where
  "append_section lib html item =
     (case item of (contributor, contributions) \<Rightarrow>
        if contributions \<noteq> []
        then append_rows lib
               (html @ ''<h3>Contributions from '' @ contributor @ ''</h3>''
                  @ table_open @ table_header)
               contributions
             @ ''</table><br>''
        else html @ ''<p>No recent contributions found for '' @ contributor
               @ ''</p><br>'')"

fun append_sections ::
  "'f pylib \<Rightarrow> string \<Rightarrow> (string \<times> 'f Contribution list) list \<Rightarrow> string" where
  "append_sections lib html [] = html"
| "append_sections lib html (item # rest) =
     append_sections lib (append_section lib html item) rest"

definition format_email_body ::
  "'f pylib \<Rightarrow> (string \<times> 'f Contribution list) list \<Rightarrow> string" where
  "format_email_body lib contributions_by_contributor =
     append_sections lib (''<html><body>'' @ ''<h2>FEC Contribution Alert</h2>'')
       contributions_by_contributor
     @ ''</body></html>''"

section \<open>The notifier and the secrets\<close>

text \<open>
  \<^verbatim>\<open>send_email\<close> first builds the message, outside any \<^verbatim>\<open>try\<close>: an exception
  there leaves the function at once, nothing is printed and no session is opened. Then
  it opens the SMTP session inside a \<^verbatim>\<open>try\<close> whose handler prints a line and raises
  the exception again, whether or not the server had accepted the message.
\<close>

definition send_email ::
  "'f pylib \<Rightarrow> 'f env \<Rightarrow> string \<Rightarrow> string \<Rightarrow> string \<Rightarrow> smtp_config \<Rightarrow> 'f world
   \<Rightarrow> ('f exn + unit) \<times> 'f world" where
  "send_email lib ev to_email subj html_content cfg w =
     (let msg = \<lparr>subject = subj, sender = from_email cfg, recipient = to_email,
                 html_part = html_content\<rparr>
      in case mime_error lib msg of
           Some e \<Rightarrow> (Inl e, w)
         | None \<Rightarrow>
            (let w1 = w\<lparr>attempted := attempted w @ [msg]\<rparr>
             in case smtp_session ev cfg msg of
                  Sent \<Rightarrow> (Inr (), w1\<lparr>delivered := delivered w1 @ [msg]\<rparr>)
                | Raised accepted e \<Rightarrow>
                    (Inl e,
                     w1\<lparr>delivered := (if accepted then delivered w1 @ [msg]
                                       else delivered w1),
                        stdout := stdout w1 @
                          [''Error sending email: '' @ message lib e]\<rparr>)))"

definition get_secret :: "'f env \<Rightarrow> string \<Rightarrow> 'f exn + string" where
  "get_secret ev secret_id =
     (case secret_client ev of
        Some e \<Rightarrow> Inl e
      | None \<Rightarrow>
         (case environ ev ''PROJECT_ID'' of
            None \<Rightarrow> Inl (KeyError ''PROJECT_ID'')
          | Some project \<Rightarrow>
              access_secret ev
                (''projects/'' @ project @ ''/secrets/'' @ secret_id
                   @ ''/versions/latest'')))"

section \<open>The entry point: \<^verbatim>\<open>monitor_contributions\<close>\<close>

text \<open>\<^verbatim>\<open>os.environ[k]\<close> and \<^verbatim>\<open>int(s)\<close> for a string.\<close>

definition environ_item :: "'f env \<Rightarrow> string \<Rightarrow> 'f exn + string" where
  "environ_item ev k = (case environ ev k of None \<Rightarrow> Inl (KeyError k) | Some v \<Rightarrow> Inr v)"

definition py_int :: "'f pylib \<Rightarrow> string \<Rightarrow> 'f exn + int" where
  "py_int lib s =
     (case int_of_str lib s of None \<Rightarrow> Inl (ValueError ''int'' (JStr s)) | Some i \<Rightarrow> Inr i)"

definition contributors :: "Contributor list" where
  "contributors =
     [\<lparr>name = ''Sundar Pichai'', employer = Some ''Google''\<rparr>,
      \<lparr>name = ''Kent Walker'', employer = Some ''Google''\<rparr>,
      \<lparr>name = ''Thomas Kurian'', employer = Some ''Google''\<rparr>,
      \<lparr>name = ''Jen Fitzpatrick'', employer = Some ''Google''\<rparr>,
      \<lparr>name = ''Rick Osterloh'', employer = Some ''Google''\<rparr>,
      \<lparr>name = ''Prabhakar Raghavan'', employer = Some ''Google''\<rparr>,
      \<lparr>name = ''Lorraine Twohill'', employer = Some ''Google''\<rparr>,
      \<lparr>name = ''Corey DuBrowa'', employer = Some ''Google''\<rparr>,
      \<lparr>name = ''Neal Mohan'', employer = Some ''Google''\<rparr>,
      \<lparr>name = ''Anat Ashkenazi'', employer = Some ''Google''\<rparr>,
      \<lparr>name = ''Jeff Dean'', employer = Some ''Google''\<rparr>,
      \<lparr>name = ''Ruth Porat'', employer = Some ''Google''\<rparr>]"

text \<open>
  The configuration read at the start of the \<^verbatim>\<open>try\<close> block, in the order of the
  source: the two required variables, the two secrets, then the SMTP settings, of
  which only \<^verbatim>\<open>int(...)\<close> of the port can raise.
\<close>

record settings =
  notification_email :: string
  fec_api_key :: string
  smtp :: smtp_config

definition load_settings :: "'f pylib \<Rightarrow> 'f env \<Rightarrow> 'f exn + settings" where
  "load_settings lib ev =
     and_then (environ_item ev ''PROJECT_ID'') (\<lambda>project_id.
     and_then (environ_item ev ''NOTIFICATION_EMAIL'') (\<lambda>to_email.
     and_then (get_secret ev ''fec-api-key'') (\<lambda>api_key.
     and_then (get_secret ev ''smtp-password'') (\<lambda>smtp_password.
     and_then (py_int lib (case environ ev ''SMTP_PORT'' of None \<Rightarrow> ''587''
                           | Some s \<Rightarrow> s)) (\<lambda>p.
       Inr \<lparr>notification_email = to_email, fec_api_key = api_key,
            smtp = \<lparr>server = (case environ ev ''SMTP_SERVER'' of
                                None \<Rightarrow> ''smtp.gmail.com'' | Some s \<Rightarrow> s),
                    port = p,
                    username = environ ev ''SMTP_USERNAME'',
                    password = smtp_password,
                    from_email = environ ev ''FROM_EMAIL''\<rparr>\<rparr>)))))"

text \<open>
  The loop that fills \<^verbatim>\<open>contributions_by_contributor\<close>, over any registry. The
  fetcher is called with the defaults of its keyword parameters; an exception that
  leaves it leaves the loop.
\<close>

fun fetch_all ::
  "'f pylib \<Rightarrow> 'f env \<Rightarrow> string \<Rightarrow> (string \<times> 'f Contribution list) list
   \<Rightarrow> Contributor list \<Rightarrow> 'f world
   \<Rightarrow> ('f exn + (string \<times> 'f Contribution list) list) \<times> 'f world" where
  "fetch_all lib ev api_key d [] w = (Inr d, w)"
| "fetch_all lib ev api_key d (contributor # rest) w =
     (case get_fec_contributions lib ev contributor api_key
             default_days_back_load default_days_back_contrib w of
        (Inl e, w') \<Rightarrow> (Inl e, w')
      | (Inr contributions, w') \<Rightarrow>
          fetch_all lib ev api_key (dict_set d (name contributor) contributions) rest w')"

text \<open>\<^verbatim>\<open>any(contributions_by_contributor.values())\<close>: some list is not empty.\<close>

definition any_values :: "(string \<times> 'a list) list \<Rightarrow> bool" where
  "any_values d = list_ex (\<lambda>kv. snd kv \<noteq> []) d"

text \<open>The rest of the \<^verbatim>\<open>try\<close> block, for a registry \<open>cs\<close>.\<close>

definition pipeline ::
  "'f pylib \<Rightarrow> 'f env \<Rightarrow> settings \<Rightarrow> Contributor list \<Rightarrow> 'f world
   \<Rightarrow> ('f exn + string \<times> int) \<times> 'f world" where
  "pipeline lib ev cfg cs w =
     (case fetch_all lib ev (fec_api_key cfg) [] cs w of
        (Inl e, w1) \<Rightarrow> (Inl e, w1)
      | (Inr contributions_by_contributor, w1) \<Rightarrow>
          if any_values contributions_by_contributor
          then (let html_content = format_email_body lib contributions_by_contributor;
                    subj = ''FEC Contribution Alert - ''
                             @ strftime lib (now ev (clock_reads w1)) ''%Y-%m-%d'';
                    w2 = w1\<lparr>clock_reads := Suc (clock_reads w1)\<rparr>
                in case send_email lib ev (notification_email cfg) subj html_content
                          (smtp cfg) w2 of
                     (Inl e, w3) \<Rightarrow> (Inl e, w3)
                   | (Inr u, w3) \<Rightarrow> (Inr (''Alert sent successfully'', 200), w3))
          else (Inr (''No new contributions found'', 200), w1))"

definition monitor_try ::
  "'f pylib \<Rightarrow> 'f env \<Rightarrow> 'f world \<Rightarrow> ('f exn + string \<times> int) \<times> 'f world" where
  "monitor_try lib ev w =
     (case load_settings lib ev of
        Inl e \<Rightarrow> (Inl e, w)
      | Inr cfg \<Rightarrow> pipeline lib ev cfg contributors w)"

text \<open>
  The handler \<^verbatim>\<open>except Exception\<close> of the entry point prints a line and returns
  the status 500.
\<close>

definition monitor_contributions ::
  "'f pylib \<Rightarrow> 'f env \<Rightarrow> 'f world \<Rightarrow> (string \<times> int) \<times> 'f world" where
  "monitor_contributions lib ev w =
     (case monitor_try lib ev w of
        (Inr response, w') \<Rightarrow> (response, w')
      | (Inl e, w') \<Rightarrow>
          ((''Error: '' @ message lib e, 500),
           w'\<lparr>stdout := stdout w' @
                 [''Error in monitor_contributions: '' @ message lib e]\<rparr>))"


section \<open>Notions used in the statements\<close>

text \<open>
  The load timestamp of a raw record, when the record has one that parses, and the
  test the fetcher applies to it.
\<close>

definition load_time :: "'f pylib \<Rightarrow> 'f json \<Rightarrow> datetime option" where
  "load_time lib result =
     (case and_then (getitem result ''load_date'')
             (\<lambda>v. py_strptime lib v ''%Y-%m-%dT%H:%M:%S'') of
        Inl e \<Rightarrow> None | Inr t \<Rightarrow> Some t)"

definition fresh :: "'f pylib \<Rightarrow> datetime \<Rightarrow> 'f json \<Rightarrow> bool" where
  "fresh lib min_load_date result =
     (case load_time lib result of None \<Rightarrow> False | Some t \<Rightarrow> min_load_date < t)"

text \<open>
  The message of the \<^verbatim>\<open>RequestException\<close> that the request, the status check or
  the decoding of the body raises, if one of them does.
\<close>

definition request_failure :: "'f http_outcome \<Rightarrow> string option" where
  "request_failure outcome =
     (case outcome of
        Failed m \<Rightarrow> Some m
      | Response status err body \<Rightarrow>
          if 400 \<le> status \<and> status < 600 then Some err
          else (case body of Inl m \<Rightarrow> Some m | Inr data \<Rightarrow> None))"

text \<open>The raw records the loop runs over, when the response has any.\<close>

definition api_results :: "'f http_outcome \<Rightarrow> 'f json list option" where
  "api_results outcome =
     (case outcome of
        Failed m \<Rightarrow> None
      | Response status err body \<Rightarrow>
          if 400 \<le> status \<and> status < 600 then None
          else (case body of
                  Inl m \<Rightarrow> None
                | Inr data \<Rightarrow>
                   (case and_then (getitem data ''results'') iter of
                      Inl e \<Rightarrow> None | Inr rs \<Rightarrow> Some rs)))"

text \<open>
  The request a fetch sends when the clock reads \<open>t\<close>, and the state of the world
  after it.
\<close>

definition request_at ::
  "'f pylib \<Rightarrow> Contributor \<Rightarrow> string \<Rightarrow> int \<Rightarrow> datetime \<Rightarrow> (string \<times> 'f json) list" where
  "request_at lib contributor api_key days_back_contrib t =
     query_params lib contributor api_key (t - days_back_contrib * day_us) t"

definition after_request ::
  "'f world \<Rightarrow> (string \<times> 'f json) list \<Rightarrow> 'f world" where
  "after_request w params =
     w\<lparr>clock_reads := Suc (clock_reads w),
       requests := requests w @ [(base_url, params)]\<rparr>"

text \<open>The cells of one table row, and the part of the digest for one contributor.\<close>

definition row_cells :: "'f pylib \<Rightarrow> 'f Contribution \<Rightarrow> string list" where
  "row_cells lib c =
     [strftime lib (date c) ''%Y-%m-%d'',
      ''$'' @ format_amount lib (amount c),
      interpolate lib (committee_name c),
      interpolate lib (employer_c c),
      strftime lib (load_date c) ''%Y-%m-%d %H:%M:%S'']"

definition digest_section ::
  "'f pylib \<Rightarrow> string \<times> 'f Contribution list \<Rightarrow> string" where
  "digest_section lib item = append_section lib [] item"

text \<open>The message a run hands to SMTP, when it hands one.\<close>

definition alert_email ::
  "'f pylib \<Rightarrow> 'f env \<Rightarrow> settings \<Rightarrow> (string \<times> 'f Contribution list) list \<Rightarrow> 'f world
   \<Rightarrow> email" where
  "alert_email lib ev cfg d w =
     \<lparr>subject = ''FEC Contribution Alert - ''
                  @ strftime lib (now ev (clock_reads w)) ''%Y-%m-%d'',
      sender = from_email (smtp cfg),
      recipient = notification_email cfg,
      html_part = format_email_body lib d\<rparr>"

section \<open>Sample data\<close>

text \<open>
  A small instance of the library and of the environment, on which the definitions
  above can be evaluated. Amounts are counted in cents; the clock stands at
  \<^verbatim>\<open>2024-11-04T12:00:00\<close>, so that the load-date window opens at
  \<^verbatim>\<open>2024-10-21T12:00:00\<close>.
\<close>

definition sample_lib :: "int pylib" where
  "sample_lib =
     \<lparr>strptime = (\<lambda>s fmt. map_of
          [((''2024-11-03T10:00:00'', ''%Y-%m-%dT%H:%M:%S''), 63866224800000000),
           ((''2024-10-01T10:00:00'', ''%Y-%m-%dT%H:%M:%S''), 63863373600000000),
           ((''2024-10-21T12:00:00'', ''%Y-%m-%dT%H:%M:%S''), 63865108800000000),
           ((''2024-06-01'', ''%Y-%m-%d''), 63852796800000000),
           ((''2024-10-30'', ''%Y-%m-%d''), 63865843200000000)] (s, fmt)),
      strftime = (\<lambda>t fmt.
         case map_of
          [((63866318400000000, ''%m/%d/%Y''), ''11/04/2024''),
           ((63850766400000000, ''%m/%d/%Y''), ''05/08/2024''),
           ((63866318400000000, ''%Y-%m-%d''), ''2024-11-04''),
           ((63852796800000000, ''%Y-%m-%d''), ''2024-06-01''),
           ((63865843200000000, ''%Y-%m-%d''), ''2024-10-30''),
           ((63866224800000000, ''%Y-%m-%d %H:%M:%S''), ''2024-11-03 10:00:00'')]
          (t, fmt) of None \<Rightarrow> ''?'' | Some s \<Rightarrow> s),
      float_of_str = map_of [(''2500.00'', 250000), (''100'', 10000)],
      float_of_int = (\<lambda>i. Some (100 * i)),
      float_nonzero = (\<lambda>x. x \<noteq> 0),
      format_amount = (\<lambda>x. if x = 250000 then ''2,500.00''
                           else if x = 10000 then ''100.00'' else ''?''),
      int_of_str = map_of [(''587'', 587), (''25'', 25)],
      str_of = (\<lambda>v. ''None''),
      str_exn = (\<lambda>e. ''invalid value''),
      mime_error = (\<lambda>msg. None)\<rparr>"

definition sample_clock :: datetime where
  "sample_clock = 63866318400000000"

text \<open>
  Four raw records: one made long ago and loaded yesterday, with no employer; one made
  last week and loaded a month ago; one loaded at the very start of the window; one
  loaded yesterday whose employer is the empty string.
\<close>

definition old_but_new :: "int json" where
  "old_but_new =
     JObj [(''load_date'', JStr ''2024-11-03T10:00:00''),
           (''contribution_receipt_date'', JStr ''2024-06-01''),
           (''contribution_receipt_amount'', JFloat 250000),
           (''contributor_name'', JStr ''PICHAI, SUNDAR''),
           (''contributor_employer'', JNull),
           (''committee'', JObj [(''name'', JStr ''ACTBLUE'')])]"

definition recent_but_stale :: "int json" where
  "recent_but_stale =
     JObj [(''load_date'', JStr ''2024-10-01T10:00:00''),
           (''contribution_receipt_date'', JStr ''2024-10-30''),
           (''contribution_receipt_amount'', JStr ''100''),
           (''contributor_name'', JStr ''PICHAI, SUNDAR''),
           (''contributor_employer'', JStr ''GOOGLE''),
           (''committee'', JObj [(''name'', JStr ''ACTBLUE'')])]"

definition on_the_boundary :: "int json" where
  "on_the_boundary =
     JObj [(''load_date'', JStr ''2024-10-21T12:00:00''),
           (''contribution_receipt_date'', JStr ''2024-10-30''),
           (''contribution_receipt_amount'', JStr ''100''),
           (''contributor_name'', JStr ''PICHAI, SUNDAR''),
           (''contributor_employer'', JStr ''GOOGLE''),
           (''committee'', JObj [(''name'', JStr ''ACTBLUE'')])]"

definition blank_employer :: "int json" where
  "blank_employer =
     JObj [(''load_date'', JStr ''2024-11-03T10:00:00''),
           (''contribution_receipt_date'', JStr ''2024-10-30''),
           (''contribution_receipt_amount'', JStr ''100''),
           (''contributor_name'', JStr ''PICHAI, SUNDAR''),
           (''contributor_employer'', JStr []),
           (''committee'', JObj [(''name'', JStr ''WINRED'')])]"

definition sample_results :: "int json list" where
  "sample_results = [old_but_new, recent_but_stale, on_the_boundary, blank_employer]"

definition sample_page :: "int json list \<Rightarrow> int http_outcome" where
  "sample_page rs = Response 200 [] (Inr (JObj [(''results'', JArr rs)]))"

text \<open>
  The API answers the first request with the four records, refuses the second
  connection and answers every other request with an empty page.
\<close>

definition sample_env :: "int env" where
  "sample_env =
     \<lparr>environ = map_of [(''PROJECT_ID'', ''demo''),
                        (''NOTIFICATION_EMAIL'', ''alerts@example.org'')],
      secret_client = None,
      access_secret = (\<lambda>n. Inr ''secret''),
      now = (\<lambda>n. sample_clock),
      http_get = (\<lambda>k url ps.
         if k = 0 then sample_page sample_results
         else if k = 1 then Failed ''connection refused''
         else sample_page []),
      smtp_session = (\<lambda>cfg msg. Sent)\<rparr>"

definition start :: "int world" where
  "start = \<lparr>clock_reads = 0, requests = [], attempted = [], delivered = [], stdout = []\<rparr>"


definition sundar :: Contributor where
  "sundar = \<lparr>name = ''Sundar Pichai'', employer = Some ''Google''\<rparr>"

text \<open>What the fetcher keeps of the four records.\<close>

definition sample_kept :: "int Contribution list" where
  "sample_kept =
     [\<lparr>date = 63852796800000000, amount = 250000,
       contributor_name = JStr ''PICHAI, SUNDAR'', employer_c = JStr ''Not reported'',
       committee_name = JStr ''ACTBLUE'', load_date = 63866224800000000\<rparr>,
      \<lparr>date = 63865843200000000, amount = 10000,
       contributor_name = JStr ''PICHAI, SUNDAR'', employer_c = JStr ''Not reported'',
       committee_name = JStr ''WINRED'', load_date = 63866224800000000\<rparr>]"








text \<open>The aggregated mapping of a run on the sample data.\<close>

definition sample_groups :: "(string \<times> int Contribution list) list" where
  "sample_groups =
     [(''Sundar Pichai'', sample_kept), (''Kent Walker'', []), (''Thomas Kurian'', []),
      (''Jen Fitzpatrick'', []), (''Rick Osterloh'', []), (''Prabhakar Raghavan'', []),
      (''Lorraine Twohill'', []), (''Corey DuBrowa'', []), (''Neal Mohan'', []),
      (''Anat Ashkenazi'', []), (''Jeff Dean'', []), (''Ruth Porat'', [])]"

definition sample_settings :: settings where
  "sample_settings =
     \<lparr>notification_email = ''alerts@example.org'', fec_api_key = ''secret'',
      smtp = \<lparr>server = ''smtp.gmail.com'', port = 587, username = None,
              password = ''secret'', from_email = None\<rparr>\<rparr>"

text \<open>
  The same environment with an SMTP server that refuses the session, and with one that
  accepts the message and then answers \<^verbatim>\<open>QUIT\<close> with an error.
\<close>

definition smtp_down_env :: "int env" where
  "smtp_down_env =
     sample_env\<lparr>smtp_session := (\<lambda>cfg msg. Raised False (ExternalError ''smtp down''))\<rparr>"



text \<open>An API that answers every request with an empty page.\<close>

definition quiet_env :: "int env" where
  "quiet_env = sample_env\<lparr>http_get := (\<lambda>k url ps. sample_page [])\<rparr>"

definition quiet_groups :: "(string \<times> int Contribution list) list" where
  "quiet_groups = map (\<lambda>c. (name c, [])) contributors"

section \<open>Auxiliary facts\<close>

subsection \<open>Exceptions of the steps of the fetcher\<close>

lemma and_then_Inr_iff:
  "and_then x f = Inr y \<longleftrightarrow> (\<exists>a. x = Inr a \<and> f a = Inr y)"
  by (cases x) auto

lemma and_then_Inl_iff:
  "and_then x f = Inl e \<longleftrightarrow> x = Inl e \<or> (\<exists>a. x = Inr a \<and> f a = Inl e)"
  by (cases x) auto

lemma minus_days_Some: "minus_days t n = Some r \<Longrightarrow> r = t - n * day_us"
  by (auto simp: minus_days_def Let_def split: if_splits)

lemma getitem_not_request: "getitem v k \<noteq> Inl (RequestException m)"
  by (cases v) (auto split: option.splits)

lemma iter_not_request: "iter v \<noteq> Inl (RequestException m)"
  by (cases v) auto

lemma py_strptime_not_request: "py_strptime lib v fmt \<noteq> Inl (RequestException m)"
  by (cases v) (auto split: option.splits)

lemma py_float_not_request: "py_float lib v \<noteq> Inl (RequestException m)"
  by (cases v) (auto split: option.splits)

lemma make_contribution_not_request:
  "make_contribution lib r t \<noteq> Inl (RequestException m)"
  unfolding make_contribution_def
  by (auto simp: and_then_Inl_iff getitem_not_request py_strptime_not_request
        py_float_not_request)

lemma process_result_not_request:
  "process_result lib mn r \<noteq> Inl (RequestException m)"
  unfolding process_result_def
  by (auto simp: and_then_Inl_iff getitem_not_request py_strptime_not_request
        make_contribution_not_request)

lemma collect_not_request: "collect lib mn acc rs \<noteq> Inl (RequestException m)"
  by (induction rs arbitrary: acc)
     (auto simp: process_result_not_request split: sum.splits option.splits)

lemma try_block_request_failure:
  "request_failure outcome = Some m \<Longrightarrow> try_block lib mn outcome = Inl (RequestException m)"
  by (auto simp: request_failure_def try_block_def raise_for_status_def
        split: http_outcome.splits if_splits sum.splits)

lemma try_block_no_request_failure:
  "request_failure outcome = None \<Longrightarrow> try_block lib mn outcome \<noteq> Inl (RequestException m)"
  by (auto simp: request_failure_def try_block_def raise_for_status_def and_then_Inl_iff
        getitem_not_request iter_not_request collect_not_request
        split: http_outcome.splits if_splits sum.splits)

lemma try_block_results:
  "api_results outcome = Some rs \<Longrightarrow> try_block lib mn outcome = collect lib mn [] rs"
  by (auto simp: api_results_def try_block_def raise_for_status_def and_then_Inr_iff
        split: http_outcome.splits if_splits sum.splits)

lemma api_results_no_failure:
  "api_results outcome = Some rs \<Longrightarrow> request_failure outcome = None"
  by (auto simp: api_results_def request_failure_def
        split: http_outcome.splits if_splits sum.splits)

lemma get_fec_contributions_window:
  assumes "minus_days (now ev (clock_reads w)) dbc = Some s"
      and "minus_days (now ev (clock_reads w)) dbl = Some mn"
  shows "get_fec_contributions lib ev c key dbl dbc w =
     (let params = request_at lib c key dbc (now ev (clock_reads w));
          w2 = after_request w params
      in case try_block lib mn (http_get ev (length (requests w)) base_url params) of
           Inr cs \<Rightarrow> (Inr cs, w2)
         | Inl (RequestException m) \<Rightarrow>
             (Inr [], w2\<lparr>stdout := stdout w2 @
                 [''Error fetching FEC data for '' @ name c @ '': '' @ m]\<rparr>)
         | Inl e \<Rightarrow> (Inl e, w2))"
  using assms minus_days_Some[OF assms(1)]
  by (simp add: get_fec_contributions_def Let_def request_at_def after_request_def)

lemma get_fec_contributions_overflow:
  assumes "minus_days (now ev (clock_reads w)) dbc = None
           \<or> minus_days (now ev (clock_reads w)) dbl = None"
  shows "get_fec_contributions lib ev c key dbl dbc w =
           (Inl OverflowError, w\<lparr>clock_reads := Suc (clock_reads w)\<rparr>)"
  using assms
  by (auto simp: get_fec_contributions_def Let_def split: option.splits)


subsection \<open>The loop over the raw records\<close>

lemma process_result_skip:
  "process_result lib m r = Inr None \<longleftrightarrow> (\<exists>t. load_time lib r = Some t \<and> t \<le> m)"
  unfolding process_result_def load_time_def
  by (cases "getitem r ''load_date''";
      cases "py_strptime lib (projr (getitem r ''load_date'')) ''%Y-%m-%dT%H:%M:%S''")
     (auto simp: and_then_Inr_iff split: sum.splits)

lemma process_result_keep:
  "process_result lib m r = Inr (Some c) \<longleftrightarrow>
     (\<exists>t. load_time lib r = Some t \<and> m < t \<and> make_contribution lib r t = Inr c)"
  unfolding process_result_def load_time_def
  by (cases "getitem r ''load_date''";
      cases "py_strptime lib (projr (getitem r ''load_date'')) ''%Y-%m-%dT%H:%M:%S''")
     (auto simp: and_then_Inr_iff split: sum.splits)

lemma make_contribution_load_date:
  "make_contribution lib r t = Inr c \<Longrightarrow> load_date c = t"
  unfolding make_contribution_def by (auto simp: and_then_Inr_iff)

lemma process_result_Inr_fresh:
  "process_result lib m r = Inr x \<Longrightarrow> (x \<noteq> None) = fresh lib m r"
  by (cases x) (auto simp: process_result_skip process_result_keep fresh_def)

lemma collect_filter:
  "collect lib m acc rs = Inr cs \<Longrightarrow>
     \<exists>cs'. cs = acc @ cs' \<and>
       list_all2 (\<lambda>r c. process_result lib m r = Inr (Some c)) (filter (fresh lib m) rs) cs'"
proof (induction rs arbitrary: acc)
  case Nil
  then show ?case by simp
next
  case (Cons r rs)
  show ?case
  proof (cases "process_result lib m r")
    case (Inl e)
    with Cons.prems show ?thesis by simp
  next
    case (Inr x)
    show ?thesis
    proof (cases x)
      case None
      with Inr Cons.prems have "collect lib m acc rs = Inr cs" by simp
      moreover have "\<not> fresh lib m r"
        using process_result_Inr_fresh[OF Inr] None by simp
      ultimately show ?thesis using Cons.IH by simp
    next
      case (Some c)
      with Inr Cons.prems have "collect lib m (acc @ [c]) rs = Inr cs" by simp
      from Cons.IH[OF this] obtain cs' where
        cs': "cs = (acc @ [c]) @ cs'"
        "list_all2 (\<lambda>r c. process_result lib m r = Inr (Some c)) (filter (fresh lib m) rs) cs'"
        by blast
      moreover have "fresh lib m r"
        using process_result_Inr_fresh[OF Inr] Some by simp
      ultimately show ?thesis using Inr Some by simp
    qed
  qed
qed

lemma map_of_dict_set: "map_of (dict_set d k v) = (map_of d)(k \<mapsto> v)"
  by (induction d) (auto simp: fun_upd_twist)

subsection \<open>Evaluation on the sample data\<close>

lemmas sample_defs = sample_lib_def sample_env_def sample_clock_def sample_results_def
  old_but_new_def recent_but_stale_def on_the_boundary_def blank_employer_def
  sample_page_def start_def sample_kept_def sundar_def

lemma sample_fetch:
  "get_fec_contributions sample_lib sample_env sundar ''key'' 14 180 start =
     (Inr sample_kept,
      after_request start (request_at sample_lib sundar ''key'' 180 sample_clock))"
  by (simp add: get_fec_contributions_def minus_days_def day_us_def Let_def
        try_block_def raise_for_status_def process_result_def make_contribution_def
        request_at_def after_request_def query_params_def base_url_def sample_defs)

lemma sample_api_results:
  "api_results (http_get sample_env (length (requests start)) base_url
       (request_at sample_lib sundar ''key'' 180 (now sample_env (clock_reads start))))
     = Some sample_results"
  by (simp add: api_results_def sample_env_def start_def sample_page_def)

lemma sample_fresh:
  "filter (fresh sample_lib (sample_clock - 14 * day_us)) sample_results
     = [old_but_new, blank_employer]"
  by (simp add: fresh_def load_time_def day_us_def sample_defs)

lemma fresh_ignores_contribution_date:
  "fresh lib m (JObj (dict_set kvs ''contribution_receipt_date'' v)) = fresh lib m (JObj kvs)"
  by (simp add: fresh_def load_time_def map_of_dict_set)

section \<open>The freshness filter\<close>

text \<open>
  Claim C1. Suppose a fetch returns normally after the API has answered with the raw
  records \<open>results\<close>, and let \<open>min_load_date\<close> be the clock reading of the fetch minus
  \<open>days_back_load\<close> days. Then the records returned are, one for one and in the same
  order, the records built from exactly those raw results whose parsed load timestamp
  is strictly after \<open>min_load_date\<close>. Every returned record has a load timestamp
  strictly after \<open>min_load_date\<close>; a raw result whose load timestamp is at or before
  \<open>min_load_date\<close> is skipped whatever its other fields hold; and replacing the
  contribution date of a raw result by any value never changes whether it passes the
  test. The default of \<open>days_back_load\<close> is 14.
\<close>

theorem load_date_window:
  assumes run: "get_fec_contributions lib ev contributor api_key days_back_load
                  days_back_contrib w = (Inr contributions, w')"
      and resp: "api_results (http_get ev (length (requests w)) base_url
                   (request_at lib contributor api_key days_back_contrib
                      (now ev (clock_reads w)))) = Some results"
      and mn: "min_load_date = now ev (clock_reads w) - days_back_load * day_us"
  shows "list_all2 (\<lambda>r c. process_result lib min_load_date r = Inr (Some c))
           (filter (fresh lib min_load_date) results) contributions
       \<and> (\<forall>c \<in> set contributions. min_load_date < load_date c)
       \<and> (\<forall>r \<in> set results. \<forall>t. load_time lib r = Some t \<and> t \<le> min_load_date
            \<longrightarrow> process_result lib min_load_date r = Inr None)
       \<and> (\<forall>kvs v. fresh lib min_load_date
                     (JObj (dict_set kvs ''contribution_receipt_date'' v))
                   = fresh lib min_load_date (JObj kvs))
       \<and> default_days_back_load = 14"
proof -
  let ?t = "now ev (clock_reads w)"
  obtain s where s: "minus_days ?t days_back_contrib = Some s"
    using run get_fec_contributions_overflow
            [of ev w days_back_contrib days_back_load lib contributor api_key]
    by (cases "minus_days ?t days_back_contrib") auto
  obtain m where m: "minus_days ?t days_back_load = Some m"
    using run get_fec_contributions_overflow
            [of ev w days_back_contrib days_back_load lib contributor api_key]
    by (cases "minus_days ?t days_back_load") auto
  have m_eq: "m = min_load_date" using minus_days_Some[OF m] mn by simp
  let ?out = "http_get ev (length (requests w)) base_url
                (request_at lib contributor api_key days_back_contrib ?t)"
  have tb: "try_block lib m ?out = collect lib m [] results"
    by (rule try_block_results[OF resp])
  have nf: "try_block lib m ?out \<noteq> Inl (RequestException x)" for x
    using try_block_no_request_failure[OF api_results_no_failure[OF resp]] .
  have "try_block lib m ?out = Inr contributions"
    using run nf unfolding get_fec_contributions_window[OF s m] Let_def
    by (auto split: sum.splits exn.splits)
  then have col: "collect lib min_load_date [] results = Inr contributions"
    using tb m_eq by simp
  from collect_filter[OF col]
  have la: "list_all2 (\<lambda>r c. process_result lib min_load_date r = Inr (Some c))
           (filter (fresh lib min_load_date) results) contributions" by simp
  have "min_load_date < load_date c" if "c \<in> set contributions" for c
  proof -
    from that la obtain r where "process_result lib min_load_date r = Inr (Some c)"
      by (auto simp: list_all2_conv_all_nth in_set_conv_nth)
    then show ?thesis
      by (auto simp: process_result_keep dest: make_contribution_load_date)
  qed
  moreover have "process_result lib min_load_date r = Inr None"
    if "load_time lib r = Some t" "t \<le> min_load_date" for r t
    using that by (auto simp: process_result_skip)
  ultimately show ?thesis
    using la by (auto simp: fresh_ignores_contribution_date default_days_back_load_def)
qed

text \<open>
  On the sample data the clock stands at 2024-11-04 12:00, so the window opens at
  2024-10-21 12:00. The record made in June and loaded on 3 November is kept, the
  record made on 30 October and loaded on 1 October is dropped, and so is the record
  loaded at the very instant the window opens.
\<close>

theorem load_date_window_witness:
  "get_fec_contributions sample_lib sample_env sundar ''key'' 14 180 start =
     (Inr sample_kept,
      after_request start (request_at sample_lib sundar ''key'' 180 sample_clock))
   \<and> api_results (http_get sample_env (length (requests start)) base_url
        (request_at sample_lib sundar ''key'' 180 (now sample_env (clock_reads start))))
       = Some sample_results
   \<and> list_all2 (\<lambda>r c. process_result sample_lib (sample_clock - 14 * day_us) r
                        = Inr (Some c))
        [old_but_new, blank_employer] sample_kept
   \<and> list_all (\<lambda>c. sample_clock - 14 * day_us < load_date c) sample_kept
   \<and> process_result sample_lib (sample_clock - 14 * day_us) recent_but_stale = Inr None
   \<and> process_result sample_lib (sample_clock - 14 * day_us) on_the_boundary = Inr None"
proof -
  have mn: "sample_clock - 14 * day_us = now sample_env (clock_reads start) - 14 * day_us"
    by (simp add: sample_env_def)
  have stale: "load_time sample_lib recent_but_stale = Some 63863373600000000"
    and edge: "load_time sample_lib on_the_boundary = Some 63865108800000000"
    by (simp_all add: load_time_def sample_defs)
  have le: "(63863373600000000::int) \<le> sample_clock - 14 * day_us"
    "(63865108800000000::int) \<le> sample_clock - 14 * day_us"
    by (simp_all add: sample_clock_def day_us_def)
  have mem: "recent_but_stale \<in> set sample_results" "on_the_boundary \<in> set sample_results"
    by (simp_all add: sample_results_def)
  note window = load_date_window[OF sample_fetch sample_api_results mn]
  from window have "list_all2 (\<lambda>r c. process_result sample_lib
        (sample_clock - 14 * day_us) r = Inr (Some c))
      (filter (fresh sample_lib (sample_clock - 14 * day_us)) sample_results) sample_kept"
    by (rule conjunct1)
  then have kept: "list_all2 (\<lambda>r c. process_result sample_lib
        (sample_clock - 14 * day_us) r = Inr (Some c))
      [old_but_new, blank_employer] sample_kept"
    by (simp only: sample_fresh)
  from window have "\<forall>c \<in> set sample_kept. sample_clock - 14 * day_us < load_date c"
    by blast
  then have after: "list_all (\<lambda>c. sample_clock - 14 * day_us < load_date c) sample_kept"
    by (simp only: list_all_iff)
  from window have skip: "\<forall>r \<in> set sample_results. \<forall>t.
      load_time sample_lib r = Some t \<and> t \<le> sample_clock - 14 * day_us
      \<longrightarrow> process_result sample_lib (sample_clock - 14 * day_us) r = Inr None"
    by blast
  from skip mem(1) stale le(1)
  have s1: "process_result sample_lib (sample_clock - 14 * day_us) recent_but_stale
              = Inr None" by blast
  from skip mem(2) edge le(2)
  have s2: "process_result sample_lib (sample_clock - 14 * day_us) on_the_boundary
              = Inr None" by blast
  from sample_fetch sample_api_results kept after s1 s2 show ?thesis by blast
qed

section \<open>The query\<close>

text \<open>
  Claim C7. A fetch whose two window bounds are representable datetimes sends exactly
  one request, to the schedule A endpoint, with these parameters: the contribution
  dates from the clock reading minus \<open>days_back_contrib\<close> days to the clock reading,
  both formatted with \<^verbatim>\<open>%m/%d/%Y\<close>; the sort key
  \<^verbatim>\<open>-contribution_receipt_date\<close>; \<^verbatim>\<open>per_page\<close> 100; \<^verbatim>\<open>is_individual\<close> true;
  and no parameter that asks for a further page. The default of
  \<open>days_back_contrib\<close> is 180.
\<close>

theorem query_parameters:
  assumes run: "get_fec_contributions lib ev contributor api_key days_back_load
                  days_back_contrib w = (r, w')"
      and contrib: "minus_days (now ev (clock_reads w)) days_back_contrib = Some contrib_start_date"
      and load: "minus_days (now ev (clock_reads w)) days_back_load = Some min_load_date"
  shows "requests w' = requests w @
           [(''https://api.open.fec.gov/v1/schedules/schedule_a/'',
             [(''api_key'', JStr api_key),
              (''contributor_name'', JStr (name contributor)),
              (''contributor_employer'',
                 (case employer contributor of None \<Rightarrow> JNull | Some e \<Rightarrow> JStr e)),
              (''min_date'', JStr (strftime lib
                 (now ev (clock_reads w) - days_back_contrib * day_us) ''%m/%d/%Y'')),
              (''max_date'', JStr (strftime lib (now ev (clock_reads w)) ''%m/%d/%Y'')),
              (''sort'', JStr ''-contribution_receipt_date''),
              (''per_page'', JInt 100),
              (''is_individual'', JBool True)])]
       \<and> default_days_back_contrib = 180"
proof -
  have "w' = after_request w (request_at lib contributor api_key days_back_contrib
                 (now ev (clock_reads w)))
        \<or> (\<exists>l. w' = (after_request w (request_at lib contributor api_key days_back_contrib
                 (now ev (clock_reads w))))\<lparr>stdout := l\<rparr>)"
    using run unfolding get_fec_contributions_window[OF contrib load] Let_def
    by (auto split: sum.splits exn.splits)
  then have "requests w' = requests w @ [(base_url, request_at lib contributor api_key
               days_back_contrib (now ev (clock_reads w)))]"
    by (auto simp: after_request_def)
  then show ?thesis
    by (simp add: base_url_def request_at_def query_params_def default_days_back_contrib_def)
qed

text \<open>The request of the sample fetch asks for 8 May to 4 November 2024.\<close>

theorem query_parameters_witness:
  "minus_days (now sample_env (clock_reads start)) 180 = Some 63850766400000000
   \<and> minus_days (now sample_env (clock_reads start)) 14 = Some 63865108800000000
   \<and> requests (snd (get_fec_contributions sample_lib sample_env sundar ''key'' 14 180 start))
       = [(''https://api.open.fec.gov/v1/schedules/schedule_a/'',
           [(''api_key'', JStr ''key''),
            (''contributor_name'', JStr ''Sundar Pichai''),
            (''contributor_employer'', JStr ''Google''),
            (''min_date'', JStr ''05/08/2024''),
            (''max_date'', JStr ''11/04/2024''),
            (''sort'', JStr ''-contribution_receipt_date''),
            (''per_page'', JInt 100),
            (''is_individual'', JBool True)])]"
proof -
  have c: "minus_days (now sample_env (clock_reads start)) 180 = Some 63850766400000000"
    and l: "minus_days (now sample_env (clock_reads start)) 14 = Some 63865108800000000"
    by (simp_all add: minus_days_def day_us_def sample_env_def sample_clock_def start_def)
  have run: "get_fec_contributions sample_lib sample_env sundar ''key'' 14 180 start
      = (fst (get_fec_contributions sample_lib sample_env sundar ''key'' 14 180 start),
         snd (get_fec_contributions sample_lib sample_env sundar ''key'' 14 180 start))"
    by simp
  from query_parameters[OF run c l]
  have "requests (snd (get_fec_contributions sample_lib sample_env sundar ''key'' 14 180 start))
     = requests start @
           [(''https://api.open.fec.gov/v1/schedules/schedule_a/'',
             [(''api_key'', JStr ''key''),
              (''contributor_name'', JStr (name sundar)),
              (''contributor_employer'',
                 (case employer sundar of None \<Rightarrow> JNull | Some e \<Rightarrow> JStr e)),
              (''min_date'', JStr (strftime sample_lib
                 (now sample_env (clock_reads start) - 180 * day_us) ''%m/%d/%Y'')),
              (''max_date'', JStr (strftime sample_lib (now sample_env (clock_reads start)) ''%m/%d/%Y'')),
              (''sort'', JStr ''-contribution_receipt_date''),
              (''per_page'', JInt 100),
              (''is_individual'', JBool True)])]"
    by (rule conjunct1)
  then have "requests (snd (get_fec_contributions sample_lib sample_env sundar ''key'' 14 180 start))
       = [(''https://api.open.fec.gov/v1/schedules/schedule_a/'',
           [(''api_key'', JStr ''key''),
            (''contributor_name'', JStr ''Sundar Pichai''),
            (''contributor_employer'', JStr ''Google''),
            (''min_date'', JStr ''05/08/2024''),
            (''max_date'', JStr ''11/04/2024''),
            (''sort'', JStr ''-contribution_receipt_date''),
            (''per_page'', JInt 100),
            (''is_individual'', JBool True)])]"
    by (simp add: sample_lib_def sample_env_def sample_clock_def start_def sundar_def day_us_def)
  with c l show ?thesis by blast
qed

section \<open>Errors of the fetcher\<close>

lemmas fetch_defs = get_fec_contributions_def minus_days_def day_us_def Let_def
  try_block_def raise_for_status_def process_result_def make_contribution_def
  request_at_def after_request_def query_params_def base_url_def





section \<open>The loop over the registry\<close>


lemma dict_set_keys: "fst ` set (dict_set d k v) = insert k (fst ` set d)"
  by (induction d) force+

lemma dict_set_fresh_key: "k \<notin> fst ` set d \<Longrightarrow> dict_set d k v = d @ [(k, v)]"
  by (induction d) auto

lemma get_fec_contributions_Inr_request:
  assumes "get_fec_contributions lib ev c key dbl dbc w = (Inr cs, w')"
  shows "requests w' = requests w @
           [(base_url, request_at lib c key dbc (now ev (clock_reads w)))]
       \<and> clock_reads w' = Suc (clock_reads w)
       \<and> attempted w' = attempted w \<and> delivered w' = delivered w"
  using assms
  by (auto simp: get_fec_contributions_def Let_def request_at_def
        dest!: minus_days_Some split: option.splits sum.splits exn.splits)

lemma get_fec_contributions_emails:
  assumes "get_fec_contributions lib ev c key dbl dbc w = (r, w')"
  shows "attempted w' = attempted w \<and> delivered w' = delivered w"
  using assms
  by (auto simp: get_fec_contributions_def Let_def
        split: option.splits sum.splits exn.splits)

lemma fetch_all_emails:
  "fetch_all lib ev key d cs w = (r, w') \<Longrightarrow>
     attempted w' = attempted w \<and> delivered w' = delivered w"
proof (induction cs arbitrary: d w)
  case Nil
  then show ?case by simp
next
  case (Cons c cs)
  obtain r1 w1 where g: "get_fec_contributions lib ev c key default_days_back_load
      default_days_back_contrib w = (r1, w1)" by (cases "get_fec_contributions lib ev c key default_days_back_load
      default_days_back_contrib w")
  note e = get_fec_contributions_emails[OF g]
  show ?case
  proof (cases r1)
    case (Inl x)
    with g Cons.prems e show ?thesis by simp
  next
    case (Inr x)
    with g Cons.prems have "fetch_all lib ev key (dict_set d (name c) x) cs w1 = (r, w')"
      by simp
    from Cons.IH[OF this] e show ?thesis by simp
  qed
qed

lemma fetch_all_Inr:
  "fetch_all lib ev key d cs w = (Inr d', w') \<Longrightarrow>
     fst ` set d' = fst ` set d \<union> name ` set cs
   \<and> (\<forall>k. k \<notin> name ` set cs \<longrightarrow> map_of d' k = map_of d k)
   \<and> (\<exists>reqs. requests w' = requests w @ reqs
         \<and> map (\<lambda>rq. map_of (snd rq) ''contributor_name'') reqs
             = map (\<lambda>c. Some (JStr (name c))) cs)"
proof (induction cs arbitrary: d w)
  case Nil
  then show ?case by simp
next
  case (Cons c cs)
  obtain r1 w1 where g: "get_fec_contributions lib ev c key default_days_back_load
      default_days_back_contrib w = (r1, w1)"
    by (cases "get_fec_contributions lib ev c key default_days_back_load
      default_days_back_contrib w")
  show ?case
  proof (cases r1)
    case (Inl x)
    with g Cons.prems show ?thesis by simp
  next
    case (Inr x)
    with g Cons.prems
    have rest: "fetch_all lib ev key (dict_set d (name c) x) cs w1 = (Inr d', w')"
      by simp
    note ih = Cons.IH[OF rest]
    let ?p = "request_at lib c key default_days_back_contrib (now ev (clock_reads w))"
    from g Inr have rq: "requests w1 = requests w @ [(base_url, ?p)]"
      using get_fec_contributions_Inr_request by blast
    have nm: "map_of ?p ''contributor_name'' = Some (JStr (name c))"
      by (simp add: request_at_def query_params_def)
    from ih obtain reqs where reqs: "requests w' = requests w1 @ reqs"
      "map (\<lambda>rq. map_of (snd rq) ''contributor_name'') reqs
             = map (\<lambda>c. Some (JStr (name c))) cs" by blast
    have 1: "fst ` set d' = fst ` set d \<union> name ` set (c # cs)"
      using ih by (simp add: dict_set_keys)
    have 2: "\<forall>k. k \<notin> name ` set (c # cs) \<longrightarrow> map_of d' k = map_of d k"
      using ih by (auto simp: map_of_dict_set)
    have 3: "requests w' = requests w @ ((base_url, ?p) # reqs)
         \<and> map (\<lambda>rq. map_of (snd rq) ''contributor_name'') ((base_url, ?p) # reqs)
             = map (\<lambda>c. Some (JStr (name c))) (c # cs)"
      using reqs rq nm by simp
    from 1 2 3 show ?thesis by blast
  qed
qed

lemma fetch_all_keys_distinct:
  "fetch_all lib ev key d cs w = (Inr d', w') \<Longrightarrow> distinct (map name cs) \<Longrightarrow>
     name ` set cs \<inter> fst ` set d = {} \<Longrightarrow>
     map fst d' = map fst d @ map name cs"
proof (induction cs arbitrary: d w)
  case Nil
  then show ?case by simp
next
  case (Cons c cs)
  obtain r1 w1 where g: "get_fec_contributions lib ev c key default_days_back_load
      default_days_back_contrib w = (r1, w1)"
    by (cases "get_fec_contributions lib ev c key default_days_back_load
      default_days_back_contrib w")
  show ?case
  proof (cases r1)
    case (Inl x)
    with g Cons.prems show ?thesis by simp
  next
    case (Inr x)
    with g Cons.prems
    have rest: "fetch_all lib ev key (dict_set d (name c) x) cs w1 = (Inr d', w')"
      by simp
    have new: "name c \<notin> fst ` set d" using Cons.prems(3) by auto
    have ds: "dict_set d (name c) x = d @ [(name c, x)]"
      by (rule dict_set_fresh_key[OF new])
    have "name ` set cs \<inter> fst ` set (dict_set d (name c) x) = {}"
      using Cons.prems(2,3) by (auto simp: dict_set_keys)
    from Cons.IH[OF rest _ this] Cons.prems(2) ds show ?thesis by simp
  qed
qed




section \<open>The digest\<close>

lemma append_rows_concat:
  "append_rows lib html cs = html @ concat (map (table_row lib) cs)"
  by (induction cs arbitrary: html) simp_all

lemma digest_section_rows:
  "cs \<noteq> [] \<Longrightarrow> digest_section lib (n, cs) =
     ''<h3>Contributions from '' @ n @ ''</h3>'' @ table_open @ table_header
       @ concat (map (table_row lib) cs) @ ''</table><br>''"
  by (simp add: digest_section_def append_section_def append_rows_concat)

lemma digest_section_empty:
  "digest_section lib (n, []) = ''<p>No recent contributions found for '' @ n @ ''</p><br>''"
  by (simp add: digest_section_def append_section_def)

lemma append_section_eq:
  "append_section lib html item = html @ digest_section lib item"
  by (cases item) (simp add: digest_section_def append_section_def append_rows_concat)

lemma append_sections_concat:
  "append_sections lib html d = html @ concat (map (digest_section lib) d)"
  by (induction d arbitrary: html) (simp_all add: append_section_eq)

lemma format_email_body_concat:
  "format_email_body lib d =
     ''<html><body><h2>FEC Contribution Alert</h2>''
       @ concat (map (digest_section lib) d) @ ''</body></html>''"
  by (simp add: format_email_body_def append_sections_concat)

lemma table_row_cells:
  "table_row lib c =
     nl @ sp16 @ ''<tr>'' @ nl
       @ concat (map (\<lambda>x. sp20 @ ''<td>'' @ x @ ''</td>'' @ nl) (row_cells lib c))
       @ sp16 @ ''</tr>'' @ nl @ sp16"
  by (simp add: table_row_def row_cells_def)

lemma table_header_cells:
  "table_header =
     ''<tr>'' @ concat (map (\<lambda>l. ''<th>'' @ l @ ''</th>'')
                  [''Date'', ''Amount'', ''Committee'', ''Employer'']) @ ''</tr>''"
  by (simp add: table_header_def)

section \<open>The employer of a record\<close>

lemma make_contribution_employer:
  "make_contribution lib r t = Inr c \<Longrightarrow>
     \<exists>v. getitem r ''contributor_employer'' = Inr v
       \<and> employer_c c = (if truthy lib v then v else JStr ''Not reported'')"
  unfolding make_contribution_def by (auto simp: and_then_Inr_iff)

lemma process_result_employer:
  "process_result lib m r = Inr (Some c) \<Longrightarrow>
     \<exists>v. getitem r ''contributor_employer'' = Inr v
       \<and> employer_c c = (if truthy lib v then v else JStr ''Not reported'')"
proof -
  assume "process_result lib m r = Inr (Some c)"
  then obtain t where "make_contribution lib r t = Inr c"
    by (auto simp: process_result_keep)
  then show ?thesis by (rule make_contribution_employer)
qed

text \<open>
  Claim C5. Take a raw record whose employer is missing: the field is null, or the key
  is absent. Every record the fetcher builds from it has the employer
  \<^verbatim>\<open>Not reported\<close>, and the employer cell of its row in the digest reads
  \<^verbatim>\<open>Not reported\<close>: never null, never blank. (A record is built only in the first
  case: where the key is absent the lookup raises \<^verbatim>\<open>KeyError\<close> and no record
  exists.)
\<close>

theorem missing_employer_sentinel:
  assumes missing: "getitem result ''contributor_employer'' = Inr JNull
                    \<or> getitem result ''contributor_employer''
                        = Inl (KeyError ''contributor_employer'')"
      and kept: "process_result lib min_load_date result = Inr (Some c)"
  shows "employer_c c = JStr ''Not reported''
       \<and> getitem result ''contributor_employer'' = Inr JNull
       \<and> row_cells lib c ! 3 = ''Not reported''
       \<and> table_row lib c =
           nl @ sp16 @ ''<tr>'' @ nl
             @ sp20 @ ''<td>'' @ strftime lib (date c) ''%Y-%m-%d'' @ ''</td>'' @ nl
             @ sp20 @ ''<td>$'' @ format_amount lib (amount c) @ ''</td>'' @ nl
             @ sp20 @ ''<td>'' @ interpolate lib (committee_name c) @ ''</td>'' @ nl
             @ sp20 @ ''<td>Not reported</td>'' @ nl
             @ sp20 @ ''<td>'' @ strftime lib (load_date c) ''%Y-%m-%d %H:%M:%S''
                    @ ''</td>'' @ nl
             @ sp16 @ ''</tr>'' @ nl @ sp16"
proof -
  from process_result_employer[OF kept] obtain v where
    v: "getitem result ''contributor_employer'' = Inr v"
    "employer_c c = (if truthy lib v then v else JStr ''Not reported'')" by blast
  with missing have null: "v = JNull" by auto
  with v have e: "employer_c c = JStr ''Not reported''" by simp
  with v null show ?thesis by (simp add: row_cells_def table_row_def)
qed

text \<open>The sample record with a null employer.\<close>

lemma sample_old_but_new:
  "process_result sample_lib (sample_clock - 14 * day_us) old_but_new = Inr (Some (hd sample_kept))"
  by (simp add: process_result_def make_contribution_def day_us_def sample_defs)

theorem missing_employer_sentinel_witness:
  "getitem old_but_new ''contributor_employer'' = Inr JNull
   \<and> process_result sample_lib (sample_clock - 14 * day_us) old_but_new
       = Inr (Some (hd sample_kept))
   \<and> employer_c (hd sample_kept) = JStr ''Not reported''
   \<and> row_cells sample_lib (hd sample_kept) ! 3 = ''Not reported''"
proof -
  have null: "getitem old_but_new ''contributor_employer'' = (Inr JNull :: int exn + int json)"
    by (simp add: old_but_new_def)
  then have missing: "getitem old_but_new ''contributor_employer'' = (Inr JNull :: int exn + int json)
                    \<or> getitem old_but_new ''contributor_employer''
                        = (Inl (KeyError ''contributor_employer'') :: int exn + int json)" by (rule disjI1)
  from missing_employer_sentinel[OF missing sample_old_but_new] null sample_old_but_new
  show ?thesis by blast
qed

text \<open>
  Claim C9. What triggers the replacement is the truth value of the field, not its
  absence: a record built from a raw record whose employer is present and falsy (the
  empty string, null, \<^verbatim>\<open>False\<close>, \<^verbatim>\<open>0\<close>, an empty list or an empty object) has
  the employer \<^verbatim>\<open>Not reported\<close>; a truthy employer, such as any string that is not
  empty, is kept as it is.
\<close>

theorem falsy_employer_sentinel:
  assumes kept: "process_result lib min_load_date result = Inr (Some c)"
      and field: "getitem result ''contributor_employer'' = Inr v"
  shows "(\<not> truthy lib v \<longrightarrow> employer_c c = JStr ''Not reported''
                            \<and> row_cells lib c ! 3 = ''Not reported'')
       \<and> (truthy lib v \<longrightarrow> employer_c c = v)
       \<and> \<not> truthy lib (JStr []) \<and> \<not> truthy lib JNull \<and> \<not> truthy lib (JBool False)
       \<and> \<not> truthy lib (JInt 0) \<and> \<not> truthy lib (JArr []) \<and> \<not> truthy lib (JObj [])
       \<and> (\<forall>s. s \<noteq> [] \<longrightarrow> truthy lib (JStr s))"
  using process_result_employer[OF kept] field by (auto simp: row_cells_def)

text \<open>The sample record whose employer is the empty string.\<close>

lemma sample_blank_employer:
  "process_result sample_lib (sample_clock - 14 * day_us) blank_employer
     = Inr (Some (sample_kept ! 1))"
  by (simp add: process_result_def make_contribution_def day_us_def sample_defs)

theorem falsy_employer_sentinel_witness:
  "process_result sample_lib (sample_clock - 14 * day_us) blank_employer
     = Inr (Some (sample_kept ! 1))
   \<and> getitem blank_employer ''contributor_employer'' = Inr (JStr [])
   \<and> employer_c (sample_kept ! 1) = JStr ''Not reported''
   \<and> row_cells sample_lib (sample_kept ! 1) ! 3 = ''Not reported''"
proof -
  have field: "getitem blank_employer ''contributor_employer'' = (Inr (JStr []) :: int exn + int json)"
    by (simp add: blank_employer_def)
  from falsy_employer_sentinel[OF sample_blank_employer field] sample_blank_employer field
  show ?thesis by simp
qed

lemma sample_registry_groups:
  "fst (fetch_all sample_lib sample_env ''secret'' [] contributors start) = Inr sample_groups"
  by (simp add: contributors_def fetch_defs default_days_back_load_def
        default_days_back_contrib_def sample_defs sample_groups_def)

section \<open>The rendered digest\<close>

lemma table_row_explicit:
  "table_row lib c =
     [CHR 0x0A] @ replicate 16 CHR '' '' @ ''<tr>'' @ [CHR 0x0A]
       @ concat (map (\<lambda>x. replicate 20 CHR '' '' @ ''<td>'' @ x @ ''</td>'' @ [CHR 0x0A])
           [strftime lib (date c) ''%Y-%m-%d'',
            ''$'' @ format_amount lib (amount c),
            interpolate lib (committee_name c),
            interpolate lib (employer_c c),
            strftime lib (load_date c) ''%Y-%m-%d %H:%M:%S''])
       @ replicate 16 CHR '' '' @ ''</tr>'' @ [CHR 0x0A] @ replicate 16 CHR '' ''"
  unfolding table_row_def nl_def sp16_def sp20_def by simp

lemma digest_section_explicit:
  "digest_section lib item =
     (if snd item \<noteq> []
      then ''<h3>Contributions from '' @ fst item @ ''</h3>''
           @ ''<table border='' @ [CHR 0x27] @ ''1'' @ [CHR 0x27] @ '' style='' @ [CHR 0x27]
           @ ''border-collapse: collapse; width: 100%;'' @ [CHR 0x27] @ ''>''
           @ ''<tr>'' @ concat (map (\<lambda>l. ''<th>'' @ l @ ''</th>'')
                          [''Date'', ''Amount'', ''Committee'', ''Employer'']) @ ''</tr>''
           @ concat (map (table_row lib) (snd item))
           @ ''</table><br>''
      else ''<p>No recent contributions found for '' @ fst item @ ''</p><br>'')"
  by (cases item)
     (simp add: digest_section_def append_section_def append_rows_concat table_open_def
        table_header_def)

lemma format_email_body_split:
  "format_email_body lib (before @ item # rest) =
     ''<html><body><h2>FEC Contribution Alert</h2>''
       @ concat (map (digest_section lib) before)
       @ digest_section lib item
       @ concat (map (digest_section lib) rest)
       @ ''</body></html>''"
  by (simp add: format_email_body_concat)


text \<open>
  Claim C10. Take any aggregated mapping and any contributor in it with at least one
  record. The digest that \<^verbatim>\<open>format_email_body\<close> renders holds, between the sections
  of the contributors before and after, this contributor's heading and table: a header
  row of exactly the four labels Date, Amount, Committee and Employer, and one data
  row per record, each of five cells: the contribution date, the amount, the
  committee, the employer and, with no label above it, the load timestamp formatted
  with \<^verbatim>\<open>%Y-%m-%d %H:%M:%S\<close>.
\<close>

theorem table_header_and_rows:
  assumes "contributions \<noteq> []"
  shows "format_email_body lib (before @ (contributor, contributions) # rest) =
     ''<html><body><h2>FEC Contribution Alert</h2>''
     @ concat (map (digest_section lib) before)
     @ ''<h3>Contributions from '' @ contributor @ ''</h3>''
     @ ''<table border='' @ [CHR 0x27] @ ''1'' @ [CHR 0x27] @ '' style='' @ [CHR 0x27]
     @ ''border-collapse: collapse; width: 100%;'' @ [CHR 0x27] @ ''>''
     @ ''<tr>'' @ concat (map (\<lambda>l. ''<th>'' @ l @ ''</th>'')
                    [''Date'', ''Amount'', ''Committee'', ''Employer'']) @ ''</tr>''
     @ concat (map (\<lambda>c.
         [CHR 0x0A] @ replicate 16 CHR '' '' @ ''<tr>'' @ [CHR 0x0A]
         @ concat (map (\<lambda>x. replicate 20 CHR '' '' @ ''<td>'' @ x @ ''</td>'' @ [CHR 0x0A])
             [strftime lib (date c) ''%Y-%m-%d'',
              ''$'' @ format_amount lib (amount c),
              interpolate lib (committee_name c),
              interpolate lib (employer_c c),
              strftime lib (load_date c) ''%Y-%m-%d %H:%M:%S''])
         @ replicate 16 CHR '' '' @ ''</tr>'' @ [CHR 0x0A] @ replicate 16 CHR '' '')
        contributions)
     @ ''</table><br>''
     @ concat (map (digest_section lib) rest)
     @ ''</body></html>''"
proof -
  have rows: "table_row lib = (\<lambda>c.
         [CHR 0x0A] @ replicate 16 CHR '' '' @ ''<tr>'' @ [CHR 0x0A]
         @ concat (map (\<lambda>x. replicate 20 CHR '' '' @ ''<td>'' @ x @ ''</td>'' @ [CHR 0x0A])
             [strftime lib (date c) ''%Y-%m-%d'',
              ''$'' @ format_amount lib (amount c),
              interpolate lib (committee_name c),
              interpolate lib (employer_c c),
              strftime lib (load_date c) ''%Y-%m-%d %H:%M:%S''])
         @ replicate 16 CHR '' '' @ ''</tr>'' @ [CHR 0x0A] @ replicate 16 CHR '' '')"
    by (rule ext) (rule table_row_explicit)
  have "digest_section lib (contributor, contributions) =
     ''<h3>Contributions from '' @ contributor @ ''</h3>''
     @ ''<table border='' @ [CHR 0x27] @ ''1'' @ [CHR 0x27] @ '' style='' @ [CHR 0x27]
     @ ''border-collapse: collapse; width: 100%;'' @ [CHR 0x27] @ ''>''
     @ ''<tr>'' @ concat (map (\<lambda>l. ''<th>'' @ l @ ''</th>'')
                    [''Date'', ''Amount'', ''Committee'', ''Employer'']) @ ''</tr>''
     @ concat (map (table_row lib) contributions)
     @ ''</table><br>''"
    using assms by (simp only: digest_section_explicit fst_conv snd_conv not_False_eq_True if_True simp_thms)
  then show ?thesis
    unfolding format_email_body_split rows by (simp only: append_assoc)
qed

text \<open>The digest of the sample run, whose first contributor has two records.\<close>

theorem table_header_and_rows_witness:
  "sample_kept \<noteq> []
   \<and> format_email_body sample_lib sample_groups =
     ''<html><body><h2>FEC Contribution Alert</h2>''
     @ ''<h3>Contributions from Sundar Pichai</h3>''
     @ ''<table border='' @ [CHR 0x27] @ ''1'' @ [CHR 0x27] @ '' style='' @ [CHR 0x27]
     @ ''border-collapse: collapse; width: 100%;'' @ [CHR 0x27] @ ''>''
     @ ''<tr><th>Date</th><th>Amount</th><th>Committee</th><th>Employer</th></tr>''
     @ concat (map (\<lambda>cells.
         [CHR 0x0A] @ replicate 16 CHR '' '' @ ''<tr>'' @ [CHR 0x0A]
         @ concat (map (\<lambda>x. replicate 20 CHR '' '' @ ''<td>'' @ x @ ''</td>'' @ [CHR 0x0A])
             cells)
         @ replicate 16 CHR '' '' @ ''</tr>'' @ [CHR 0x0A] @ replicate 16 CHR '' '')
        [[''2024-06-01'', ''$2,500.00'', ''ACTBLUE'', ''Not reported'',
          ''2024-11-03 10:00:00''],
         [''2024-10-30'', ''$100.00'', ''WINRED'', ''Not reported'',
          ''2024-11-03 10:00:00'']])
     @ ''</table><br>''
     @ concat (map (\<lambda>n. ''<p>No recent contributions found for '' @ n @ ''</p><br>'')
         [''Kent Walker'', ''Thomas Kurian'', ''Jen Fitzpatrick'', ''Rick Osterloh'',
          ''Prabhakar Raghavan'', ''Lorraine Twohill'', ''Corey DuBrowa'', ''Neal Mohan'',
          ''Anat Ashkenazi'', ''Jeff Dean'', ''Ruth Porat''])
     @ ''</body></html>''"
proof -
  have ne: "sample_kept \<noteq> []" by (simp add: sample_kept_def)
  have groups: "sample_groups = [] @ (''Sundar Pichai'', sample_kept) # tl sample_groups"
    by (simp add: sample_groups_def)
  have rest: "concat (map (digest_section sample_lib) (tl sample_groups)) =
     concat (map (\<lambda>n. ''<p>No recent contributions found for '' @ n @ ''</p><br>'')
         [''Kent Walker'', ''Thomas Kurian'', ''Jen Fitzpatrick'', ''Rick Osterloh'',
          ''Prabhakar Raghavan'', ''Lorraine Twohill'', ''Corey DuBrowa'', ''Neal Mohan'',
          ''Anat Ashkenazi'', ''Jeff Dean'', ''Ruth Porat''])"
    by (simp add: sample_groups_def digest_section_empty)
  have digest: "format_email_body sample_lib sample_groups =
      format_email_body sample_lib ([] @ (''Sundar Pichai'', sample_kept) # tl sample_groups)"
    using groups by simp
  show ?thesis
    unfolding digest table_header_and_rows[OF ne, of sample_lib "[]" "''Sundar Pichai''" "tl sample_groups"] rest
    using ne by (simp add: sample_kept_def sample_lib_def)
qed

section \<open>Order\<close>

lemma get_fec_contributions_kept:
  assumes run: "get_fec_contributions lib ev c key dbl dbc w = (Inr cs, w')"
  shows "(\<forall>rs. api_results (http_get ev (length (requests w)) base_url
                  (request_at lib c key dbc (now ev (clock_reads w)))) = Some rs \<longrightarrow>
            list_all2 (\<lambda>r x. process_result lib (now ev (clock_reads w) - dbl * day_us) r
                              = Inr (Some x))
              (filter (fresh lib (now ev (clock_reads w) - dbl * day_us)) rs) cs)
       \<and> (\<forall>msg. request_failure (http_get ev (length (requests w)) base_url
                  (request_at lib c key dbc (now ev (clock_reads w)))) = Some msg \<longrightarrow>
            cs = [])"
proof -
  let ?t = "now ev (clock_reads w)"
  let ?out = "http_get ev (length (requests w)) base_url (request_at lib c key dbc ?t)"
  obtain s where s: "minus_days ?t dbc = Some s"
    using run get_fec_contributions_overflow[of ev w dbc dbl lib c key]
    by (cases "minus_days ?t dbc") auto
  obtain m where m: "minus_days ?t dbl = Some m"
    using run get_fec_contributions_overflow[of ev w dbc dbl lib c key]
    by (cases "minus_days ?t dbl") auto
  have m_eq: "m = ?t - dbl * day_us" by (rule minus_days_Some[OF m])
  note eq = get_fec_contributions_window[OF s m, of lib c key]
  have kept: "list_all2 (\<lambda>r x. process_result lib m r = Inr (Some x))
              (filter (fresh lib m) rs) cs"
    if resp: "api_results ?out = Some rs" for rs
  proof -
    have nf: "try_block lib m ?out \<noteq> Inl (RequestException x)" for x
      using try_block_no_request_failure[OF api_results_no_failure[OF resp]] .
    have "try_block lib m ?out = Inr cs"
      using run nf unfolding eq Let_def by (auto split: sum.splits exn.splits)
    then have "collect lib m [] rs = Inr cs"
      using try_block_results[OF resp, of lib m] by simp
    from collect_filter[OF this] show ?thesis by simp
  qed
  have none: "cs = []" if "request_failure ?out = Some msg" for msg
    using run try_block_request_failure[OF that, of lib m]
    unfolding eq Let_def by simp
  from kept none show ?thesis unfolding m_eq by blast
qed

lemma fetch_all_groups:
  "fetch_all lib ev key d0 cs w = (Inr d, w') \<Longrightarrow> distinct (map name cs) \<Longrightarrow>
     name ` set cs \<inter> fst ` set d0 = {} \<Longrightarrow>
     \<exists>gs. length gs = length cs \<and> d = d0 @ zip (map name cs) gs \<and>
       (\<forall>i<length cs. \<exists>wi wi'.
           get_fec_contributions lib ev (cs ! i) key default_days_back_load
             default_days_back_contrib wi = (Inr (gs ! i), wi')
         \<and> clock_reads wi = clock_reads w + i
         \<and> length (requests wi) = length (requests w) + i)"
proof (induction cs arbitrary: d0 w)
  case Nil
  then show ?case by simp
next
  case (Cons c cs)
  obtain r1 w1 where g: "get_fec_contributions lib ev c key default_days_back_load
      default_days_back_contrib w = (r1, w1)"
    by (cases "get_fec_contributions lib ev c key default_days_back_load
      default_days_back_contrib w")
  show ?case
  proof (cases r1)
    case (Inl e)
    with g Cons.prems show ?thesis by simp
  next
    case (Inr x)
    with g Cons.prems(1)
    have rest: "fetch_all lib ev key (dict_set d0 (name c) x) cs w1 = (Inr d, w')"
      by simp
    have new: "name c \<notin> fst ` set d0" using Cons.prems(3) by auto
    have ds: "dict_set d0 (name c) x = d0 @ [(name c, x)]"
      by (rule dict_set_fresh_key[OF new])
    have dis: "distinct (map name cs)" using Cons.prems(2) by simp
    have disj: "name ` set cs \<inter> fst ` set (dict_set d0 (name c) x) = {}"
      using Cons.prems(2,3) by (auto simp: dict_set_keys)
    from g Inr have w1: "clock_reads w1 = Suc (clock_reads w)"
      "length (requests w1) = Suc (length (requests w))"
      using get_fec_contributions_Inr_request[of lib ev c key default_days_back_load
          default_days_back_contrib w x w1] by simp_all
    from Cons.IH[OF rest dis disj] obtain gs where gs:
      "length gs = length cs" "d = dict_set d0 (name c) x @ zip (map name cs) gs"
      "\<forall>i<length cs. \<exists>wi wi'.
           get_fec_contributions lib ev (cs ! i) key default_days_back_load
             default_days_back_contrib wi = (Inr (gs ! i), wi')
         \<and> clock_reads wi = clock_reads w1 + i
         \<and> length (requests wi) = length (requests w1) + i"
      by blast
    have each: "\<exists>wi wi'.
           get_fec_contributions lib ev ((c # cs) ! i) key default_days_back_load
             default_days_back_contrib wi = (Inr ((x # gs) ! i), wi')
         \<and> clock_reads wi = clock_reads w + i
         \<and> length (requests wi) = length (requests w) + i"
      if "i < length (c # cs)" for i
    proof (cases i)
      case 0
      with g Inr show ?thesis by auto
    next
      case (Suc j)
      with that have "j < length cs" by simp
      with gs(3) obtain wi wi' where
        "get_fec_contributions lib ev (cs ! j) key default_days_back_load
             default_days_back_contrib wi = (Inr (gs ! j), wi')"
        "clock_reads wi = clock_reads w1 + j"
        "length (requests wi) = length (requests w1) + j" by blast
      with Suc w1 show ?thesis by auto
    qed
    have "length (x # gs) = length (c # cs)" using gs(1) by simp
    moreover have "d = d0 @ zip (map name (c # cs)) (x # gs)"
      using gs(2) ds by simp
    ultimately show ?thesis using each by blast
  qed
qed


lemma format_email_body_explicit:
  "format_email_body lib d =
         ''<html><body><h2>FEC Contribution Alert</h2>''
           @ concat (map (\<lambda>item.
               if snd item \<noteq> []
               then ''<h3>Contributions from '' @ fst item @ ''</h3>''
                 @ ''<table border='' @ [CHR 0x27] @ ''1'' @ [CHR 0x27] @ '' style=''
                 @ [CHR 0x27] @ ''border-collapse: collapse; width: 100%;'' @ [CHR 0x27]
                 @ ''>''
                 @ ''<tr><th>Date</th><th>Amount</th><th>Committee</th><th>Employer</th></tr>''
                 @ concat (map (\<lambda>c.
                     [CHR 0x0A] @ replicate 16 CHR '' '' @ ''<tr>'' @ [CHR 0x0A]
                     @ concat (map (\<lambda>x. replicate 20 CHR '' '' @ ''<td>'' @ x @ ''</td>''
                                         @ [CHR 0x0A])
                         [strftime lib (date c) ''%Y-%m-%d'',
                          ''$'' @ format_amount lib (amount c),
                          interpolate lib (committee_name c),
                          interpolate lib (employer_c c),
                          strftime lib (load_date c) ''%Y-%m-%d %H:%M:%S''])
                     @ replicate 16 CHR '' '' @ ''</tr>'' @ [CHR 0x0A]
                     @ replicate 16 CHR '' '')
                    (snd item))
                 @ ''</table><br>''
               else ''<p>No recent contributions found for '' @ fst item @ ''</p><br>'') d)
           @ ''</body></html>''"
proof -
  have rows: "table_row lib = (\<lambda>c.
                     [CHR 0x0A] @ replicate 16 CHR '' '' @ ''<tr>'' @ [CHR 0x0A]
                     @ concat (map (\<lambda>x. replicate 20 CHR '' '' @ ''<td>'' @ x @ ''</td>''
                                         @ [CHR 0x0A])
                         [strftime lib (date c) ''%Y-%m-%d'',
                          ''$'' @ format_amount lib (amount c),
                          interpolate lib (committee_name c),
                          interpolate lib (employer_c c),
                          strftime lib (load_date c) ''%Y-%m-%d %H:%M:%S''])
                     @ replicate 16 CHR '' '' @ ''</tr>'' @ [CHR 0x0A]
                     @ replicate 16 CHR '' '')"
    by (rule ext) (rule table_row_explicit)
  have "digest_section lib = (\<lambda>item.
               if snd item \<noteq> []
               then ''<h3>Contributions from '' @ fst item @ ''</h3>''
                 @ ''<table border='' @ [CHR 0x27] @ ''1'' @ [CHR 0x27] @ '' style=''
                 @ [CHR 0x27] @ ''border-collapse: collapse; width: 100%;'' @ [CHR 0x27]
                 @ ''>''
                 @ ''<tr><th>Date</th><th>Amount</th><th>Committee</th><th>Employer</th></tr>''
                 @ concat (map (table_row lib) (snd item))
                 @ ''</table><br>''
               else ''<p>No recent contributions found for '' @ fst item @ ''</p><br>'')"
    by (rule ext) (simp add: digest_section_explicit)
  then show ?thesis
    unfolding format_email_body_concat rows by simp
qed

text \<open>
  Claim C8. Take a run whose fetches all return, over a registry of distinct names (the
  names of the registry of the program are distinct). The keys of the aggregated
  mapping are the names of the registry in the order of its declaration, and the
  requests were issued in that order. The group at position \<open>i\<close> of the mapping comes
  from the answer to the request number \<open>i\<close> of the run, sent for the contributor
  number \<open>i\<close>: if that answer carries raw records, the group consists, one for one and
  in the order of the answer, of the records built from the raw records that pass the
  load-date test; if the request failed, the group is empty. The digest is the
  concatenation of one section per entry of the mapping, in the order of the mapping,
  and the table of a section has one row per record of the group, in the order of the
  group, each row showing the fields of its record.
\<close>

theorem registry_and_response_order:
  assumes run: "fetch_all lib ev api_key [] registry w = (Inr d, w')"
      and names: "distinct (map name registry)"
  shows "map fst d = map name registry
       \<and> (\<forall>i<length registry.
             let t = now ev (clock_reads w + i);
                 m = t - default_days_back_load * day_us;
                 outcome = http_get ev (length (requests w) + i) base_url
                             (request_at lib (registry ! i) api_key
                                default_days_back_contrib t)
             in (\<forall>rs. api_results outcome = Some rs \<longrightarrow>
                   list_all2 (\<lambda>r c. process_result lib m r = Inr (Some c))
                     (filter (fresh lib m) rs) (snd (d ! i)))
              \<and> (\<forall>msg. request_failure outcome = Some msg \<longrightarrow> snd (d ! i) = []))
       \<and> (\<exists>reqs. requests w' = requests w @ reqs
             \<and> map (\<lambda>rq. map_of (snd rq) ''contributor_name'') reqs
                 = map (\<lambda>c. Some (JStr (name c))) registry)
       \<and> format_email_body lib d =
           ''<html><body><h2>FEC Contribution Alert</h2>''
           @ concat (map (\<lambda>item.
               if snd item \<noteq> []
               then ''<h3>Contributions from '' @ fst item @ ''</h3>''
                 @ ''<table border='' @ [CHR 0x27] @ ''1'' @ [CHR 0x27] @ '' style=''
                 @ [CHR 0x27] @ ''border-collapse: collapse; width: 100%;'' @ [CHR 0x27]
                 @ ''>''
                 @ ''<tr><th>Date</th><th>Amount</th><th>Committee</th><th>Employer</th></tr>''
                 @ concat (map (\<lambda>c.
                     [CHR 0x0A] @ replicate 16 CHR '' '' @ ''<tr>'' @ [CHR 0x0A]
                     @ concat (map (\<lambda>x. replicate 20 CHR '' '' @ ''<td>'' @ x @ ''</td>''
                                         @ [CHR 0x0A])
                         [strftime lib (date c) ''%Y-%m-%d'',
                          ''$'' @ format_amount lib (amount c),
                          interpolate lib (committee_name c),
                          interpolate lib (employer_c c),
                          strftime lib (load_date c) ''%Y-%m-%d %H:%M:%S''])
                     @ replicate 16 CHR '' '' @ ''</tr>'' @ [CHR 0x0A]
                     @ replicate 16 CHR '' '')
                    (snd item))
                 @ ''</table><br>''
               else ''<p>No recent contributions found for '' @ fst item @ ''</p><br>'') d)
           @ ''</body></html>''
       \<and> distinct (map name contributors)"
proof -
  from fetch_all_groups[OF run names] obtain gs where gs:
    "length gs = length registry" "d = zip (map name registry) gs"
    "\<forall>i<length registry. \<exists>wi wi'.
           get_fec_contributions lib ev (registry ! i) api_key default_days_back_load
             default_days_back_contrib wi = (Inr (gs ! i), wi')
         \<and> clock_reads wi = clock_reads w + i
         \<and> length (requests wi) = length (requests w) + i"
    by auto
  have keys: "map fst d = map name registry"
    using gs(1,2) by simp
  have groups: "
             let t = now ev (clock_reads w + i);
                 m = t - default_days_back_load * day_us;
                 outcome = http_get ev (length (requests w) + i) base_url
                             (request_at lib (registry ! i) api_key
                                default_days_back_contrib t)
             in (\<forall>rs. api_results outcome = Some rs \<longrightarrow>
                   list_all2 (\<lambda>r c. process_result lib m r = Inr (Some c))
                     (filter (fresh lib m) rs) (snd (d ! i)))
              \<and> (\<forall>msg. request_failure outcome = Some msg \<longrightarrow> snd (d ! i) = [])"
    if i: "i < length registry" for i
  proof -
    from gs(3) i obtain wi wi' where wi:
      "get_fec_contributions lib ev (registry ! i) api_key default_days_back_load
             default_days_back_contrib wi = (Inr (gs ! i), wi')"
      "clock_reads wi = clock_reads w + i"
      "length (requests wi) = length (requests w) + i" by blast
    have "snd (d ! i) = gs ! i" using gs(1,2) i by simp
    with get_fec_contributions_kept[OF wi(1)] wi(2,3)
    show ?thesis by (simp add: Let_def)
  qed
  have reqs: "\<exists>reqs. requests w' = requests w @ reqs
             \<and> map (\<lambda>rq. map_of (snd rq) ''contributor_name'') reqs
                 = map (\<lambda>c. Some (JStr (name c))) registry"
    using fetch_all_Inr[OF run] by blast
  have dis: "distinct (map name contributors)"
    by (simp add: contributors_def)
  from keys groups reqs dis format_email_body_explicit[of lib d] show ?thesis
    by blast
qed


text \<open>
  The twelve contributors of the program, on the sample data: the first group is built
  from the first and the fourth raw record of the first answer, in that order, and the
  second group is empty because the second connection is refused.
\<close>

theorem registry_and_response_order_witness:
  "distinct (map name contributors)
   \<and> fst (fetch_all sample_lib sample_env ''secret'' [] contributors start) = Inr sample_groups
   \<and> map fst sample_groups =
       [''Sundar Pichai'', ''Kent Walker'', ''Thomas Kurian'', ''Jen Fitzpatrick'',
        ''Rick Osterloh'', ''Prabhakar Raghavan'', ''Lorraine Twohill'', ''Corey DuBrowa'',
        ''Neal Mohan'', ''Anat Ashkenazi'', ''Jeff Dean'', ''Ruth Porat'']
   \<and> api_results (http_get sample_env 0 base_url
         (request_at sample_lib (contributors ! 0) ''secret'' 180 sample_clock))
       = Some sample_results
   \<and> list_all2 (\<lambda>r c. process_result sample_lib (sample_clock - 14 * day_us) r
                        = Inr (Some c))
         [old_but_new, blank_employer] (snd (sample_groups ! 0))
   \<and> request_failure (http_get sample_env 1 base_url
         (request_at sample_lib (contributors ! 1) ''secret'' 180 sample_clock))
       = Some ''connection refused''
   \<and> snd (sample_groups ! 1) = []
   \<and> map (\<lambda>rq. map_of (snd rq) ''contributor_name'')
        (requests (snd (fetch_all sample_lib sample_env ''secret'' [] contributors start)))
       = map (\<lambda>c. Some (JStr (name c))) contributors"
proof -
  have dis: "distinct (map name contributors)"
    by (simp add: contributors_def)
  have run: "fetch_all sample_lib sample_env ''secret'' [] contributors start
      = (Inr sample_groups, snd (fetch_all sample_lib sample_env ''secret'' [] contributors start))"
    using sample_registry_groups by (simp add: prod_eq_iff)
  note order = registry_and_response_order[OF run dis]
  from order have "map fst sample_groups = map name contributors" by (rule conjunct1)
  then have keys: "map fst sample_groups =
       [''Sundar Pichai'', ''Kent Walker'', ''Thomas Kurian'', ''Jen Fitzpatrick'',
        ''Rick Osterloh'', ''Prabhakar Raghavan'', ''Lorraine Twohill'', ''Corey DuBrowa'',
        ''Neal Mohan'', ''Anat Ashkenazi'', ''Jeff Dean'', ''Ruth Porat'']"
    by (simp add: contributors_def)
  from order have each: "\<forall>i<length contributors.
             let t = now sample_env (clock_reads start + i);
                 m = t - default_days_back_load * day_us;
                 outcome = http_get sample_env (length (requests start) + i) base_url
                             (request_at sample_lib (contributors ! i) ''secret''
                                default_days_back_contrib t)
             in (\<forall>rs. api_results outcome = Some rs \<longrightarrow>
                   list_all2 (\<lambda>r c. process_result sample_lib m r = Inr (Some c))
                     (filter (fresh sample_lib m) rs) (snd (sample_groups ! i)))
              \<and> (\<forall>msg. request_failure outcome = Some msg \<longrightarrow> snd (sample_groups ! i) = [])"
    by blast
  have len: "0 < length contributors" "1 < length contributors"
    by (simp_all add: contributors_def)
  have env0: "now sample_env (clock_reads start + 0) = sample_clock"
    "length (requests start) + 0 = 0"
    and env1: "now sample_env (clock_reads start + 1) = sample_clock"
    "length (requests start) + 1 = 1"
    by (simp_all add: sample_env_def start_def)
  have a0: "api_results (http_get sample_env 0 base_url
         (request_at sample_lib (contributors ! 0) ''secret'' 180 sample_clock))
       = Some sample_results"
    by (simp add: api_results_def sample_env_def sample_page_def)
  have f1: "request_failure (http_get sample_env 1 base_url
         (request_at sample_lib (contributors ! 1) ''secret'' 180 sample_clock))
       = Some ''connection refused''"
    by (simp add: request_failure_def sample_env_def)
  from each len(1) have "
             let t = now sample_env (clock_reads start + 0);
                 m = t - default_days_back_load * day_us;
                 outcome = http_get sample_env (length (requests start) + 0) base_url
                             (request_at sample_lib (contributors ! 0) ''secret''
                                default_days_back_contrib t)
             in (\<forall>rs. api_results outcome = Some rs \<longrightarrow>
                   list_all2 (\<lambda>r c. process_result sample_lib m r = Inr (Some c))
                     (filter (fresh sample_lib m) rs) (snd (sample_groups ! 0)))
              \<and> (\<forall>msg. request_failure outcome = Some msg \<longrightarrow> snd (sample_groups ! 0) = [])"
    by blast
  then have "\<forall>rs. api_results (http_get sample_env 0 base_url
         (request_at sample_lib (contributors ! 0) ''secret'' 180 sample_clock)) = Some rs \<longrightarrow>
                   list_all2 (\<lambda>r c. process_result sample_lib (sample_clock - 14 * day_us) r = Inr (Some c))
                     (filter (fresh sample_lib (sample_clock - 14 * day_us)) rs) (snd (sample_groups ! 0))"
    unfolding Let_def env0 default_days_back_load_def default_days_back_contrib_def
    by (rule conjunct1)
  with a0 have "list_all2 (\<lambda>r c. process_result sample_lib (sample_clock - 14 * day_us) r = Inr (Some c))
                     (filter (fresh sample_lib (sample_clock - 14 * day_us)) sample_results)
                     (snd (sample_groups ! 0))" by blast
  then have first: "list_all2 (\<lambda>r c. process_result sample_lib (sample_clock - 14 * day_us) r
                        = Inr (Some c))
         [old_but_new, blank_employer] (snd (sample_groups ! 0))"
    by (simp only: sample_fresh)
  from each len(2) have "
             let t = now sample_env (clock_reads start + 1);
                 m = t - default_days_back_load * day_us;
                 outcome = http_get sample_env (length (requests start) + 1) base_url
                             (request_at sample_lib (contributors ! 1) ''secret''
                                default_days_back_contrib t)
             in (\<forall>rs. api_results outcome = Some rs \<longrightarrow>
                   list_all2 (\<lambda>r c. process_result sample_lib m r = Inr (Some c))
                     (filter (fresh sample_lib m) rs) (snd (sample_groups ! 1)))
              \<and> (\<forall>msg. request_failure outcome = Some msg \<longrightarrow> snd (sample_groups ! 1) = [])"
    by blast
  then have "\<forall>msg. request_failure (http_get sample_env 1 base_url
         (request_at sample_lib (contributors ! 1) ''secret'' 180 sample_clock)) = Some msg
       \<longrightarrow> snd (sample_groups ! 1) = []"
    unfolding Let_def env1 default_days_back_load_def default_days_back_contrib_def
    by (rule conjunct2)
  with f1 have second: "snd (sample_groups ! 1) = []" by blast
  from order obtain reqs where
    "requests (snd (fetch_all sample_lib sample_env ''secret'' [] contributors start))
       = requests start @ reqs"
    "map (\<lambda>rq. map_of (snd rq) ''contributor_name'') reqs
       = map (\<lambda>c. Some (JStr (name c))) contributors" by blast
  then have rq: "map (\<lambda>rq. map_of (snd rq) ''contributor_name'')
        (requests (snd (fetch_all sample_lib sample_env ''secret'' [] contributors start)))
       = map (\<lambda>c. Some (JStr (name c))) contributors"
    by (simp add: start_def)
  from dis sample_registry_groups keys a0 first f1 second rq show ?thesis by blast
qed

section \<open>The run\<close>

lemma any_values_iff: "any_values d = (\<exists>item \<in> set d. snd item \<noteq> [])"
  by (simp add: any_values_def list_ex_iff)

lemma pipeline_quiet:
  assumes "fetch_all lib ev (fec_api_key cfg) [] cs w = (Inr d, w1)" "\<not> any_values d"
  shows "pipeline lib ev cfg cs w = (Inr (''No new contributions found'', 200), w1)"
  using assms by (simp add: pipeline_def)

lemma pipeline_sent:
  assumes "fetch_all lib ev (fec_api_key cfg) [] cs w = (Inr d, w1)" "any_values d"
      and "mime_error lib (alert_email lib ev cfg d w1) = None"
      and "smtp_session ev (smtp cfg) (alert_email lib ev cfg d w1) = Sent"
  shows "pipeline lib ev cfg cs w =
           (Inr (''Alert sent successfully'', 200),
            w1\<lparr>clock_reads := Suc (clock_reads w1),
               attempted := attempted w1 @ [alert_email lib ev cfg d w1],
               delivered := delivered w1 @ [alert_email lib ev cfg d w1]\<rparr>)"
  using assms by (simp add: pipeline_def send_email_def alert_email_def Let_def)

lemma pipeline_build_failed:
  assumes "fetch_all lib ev (fec_api_key cfg) [] cs w = (Inr d, w1)" "any_values d"
      and "mime_error lib (alert_email lib ev cfg d w1) = Some e"
  shows "pipeline lib ev cfg cs w = (Inl e, w1\<lparr>clock_reads := Suc (clock_reads w1)\<rparr>)"
  using assms by (simp add: pipeline_def send_email_def alert_email_def Let_def)

lemma pipeline_send_failed:
  assumes "fetch_all lib ev (fec_api_key cfg) [] cs w = (Inr d, w1)" "any_values d"
      and "mime_error lib (alert_email lib ev cfg d w1) = None"
      and "smtp_session ev (smtp cfg) (alert_email lib ev cfg d w1) = Raised accepted e"
  shows "pipeline lib ev cfg cs w =
           (Inl e,
            w1\<lparr>clock_reads := Suc (clock_reads w1),
               attempted := attempted w1 @ [alert_email lib ev cfg d w1],
               delivered := (if accepted then delivered w1 @ [alert_email lib ev cfg d w1]
                             else delivered w1),
               stdout := stdout w1 @ [''Error sending email: '' @ message lib e]\<rparr>)"
  using assms by (simp add: pipeline_def send_email_def alert_email_def Let_def)

lemma monitor_contributions_of_try:
  "monitor_try lib ev w = (Inr response, w') \<Longrightarrow>
     monitor_contributions lib ev w = (response, w')"
  "monitor_try lib ev w = (Inl e, w') \<Longrightarrow>
     monitor_contributions lib ev w =
       ((''Error: '' @ message lib e, 500),
        w'\<lparr>stdout := stdout w' @ [''Error in monitor_contributions: '' @ message lib e]\<rparr>)"
  by (simp_all add: monitor_contributions_def)



lemma get_fec_contributions_smtp:
  "get_fec_contributions lib (ev\<lparr>smtp_session := f\<rparr>) c key dbl dbc w
     = get_fec_contributions lib ev c key dbl dbc w"
  by (simp add: get_fec_contributions_def Let_def split: option.splits)

lemma fetch_all_smtp:
  "fetch_all lib (ev\<lparr>smtp_session := f\<rparr>) key d cs w = fetch_all lib ev key d cs w"
  by (induction cs arbitrary: d w)
     (simp_all add: get_fec_contributions_smtp split: prod.splits sum.splits)

lemma get_secret_smtp:
  "get_secret (ev\<lparr>smtp_session := f\<rparr>) secret_id = get_secret ev secret_id"
  by (simp add: get_secret_def split: option.splits)

lemma load_settings_smtp:
  "load_settings lib (ev\<lparr>smtp_session := f\<rparr>) = load_settings lib ev"
  by (simp add: load_settings_def environ_item_def get_secret_smtp)

lemma sample_settings_loaded: "load_settings sample_lib sample_env = Inr sample_settings"
  by (simp add: load_settings_def environ_item_def get_secret_def py_int_def sample_env_def
        sample_lib_def sample_settings_def)

lemma sample_registry_run:
  "fetch_all sample_lib sample_env (fec_api_key sample_settings) [] contributors start
     = (Inr sample_groups,
        snd (fetch_all sample_lib sample_env ''secret'' [] contributors start))"
  using sample_registry_groups by (simp add: prod_eq_iff sample_settings_def)


lemma sample_any_values: "any_values sample_groups"
  by (simp add: any_values_def sample_groups_def sample_kept_def)

text \<open>
  Claim C2, as the code has it. Take a run whose settings load and whose fetches all
  return, with the aggregated mapping \<open>d\<close>. If every group of \<open>d\<close> is empty, no SMTP
  session is opened, nothing is sent and the run answers
  \<^verbatim>\<open>No new contributions found\<close>. Otherwise the digest of all of \<open>d\<close> is rendered,
  with one section per contributor of the registry, in order, a contributor without
  records getting the line \<^verbatim>\<open>No recent contributions found for ...\<close>, and at most
  one SMTP session is opened. If building the message and the session raise nothing,
  exactly one message is sent and the run answers \<^verbatim>\<open>Alert sent successfully\<close>. If
  building the message raises, no session is opened, and if the session raises, one
  was opened; either way the run answers \<^verbatim>\<open>Error: ...\<close> with status 500.
\<close>

theorem digest_decision:
  assumes cfg: "load_settings lib ev = Inr cfg"
      and fetched: "fetch_all lib ev (fec_api_key cfg) [] contributors w = (Inr d, w1)"
      and run: "monitor_contributions lib ev w = (response, w')"
      and msg: "msg = alert_email lib ev cfg d w1"
  shows "(\<not> any_values d \<longrightarrow>
            response = (''No new contributions found'', 200)
          \<and> attempted w' = attempted w \<and> delivered w' = delivered w)
       \<and> (any_values d \<and> mime_error lib msg = None
            \<and> smtp_session ev (smtp cfg) msg = Sent \<longrightarrow>
            response = (''Alert sent successfully'', 200)
          \<and> attempted w' = attempted w @ [msg]
          \<and> delivered w' = delivered w @ [msg])
       \<and> (\<forall>e. any_values d \<and> mime_error lib msg = Some e \<longrightarrow>
            response = (''Error: '' @ message lib e, 500)
          \<and> attempted w' = attempted w)
       \<and> (\<forall>accepted e. any_values d \<and> mime_error lib msg = None
            \<and> smtp_session ev (smtp cfg) msg = Raised accepted e \<longrightarrow>
            response = (''Error: '' @ message lib e, 500)
          \<and> attempted w' = attempted w @ [msg])
       \<and> any_values d = (\<exists>item \<in> set d. snd item \<noteq> [])
       \<and> map fst d = map name contributors
       \<and> html_part msg =
           ''<html><body><h2>FEC Contribution Alert</h2>''
           @ concat (map (\<lambda>item.
               if snd item \<noteq> []
               then ''<h3>Contributions from '' @ fst item @ ''</h3>''
                 @ ''<table border='' @ [CHR 0x27] @ ''1'' @ [CHR 0x27] @ '' style=''
                 @ [CHR 0x27] @ ''border-collapse: collapse; width: 100%;'' @ [CHR 0x27]
                 @ ''>''
                 @ ''<tr><th>Date</th><th>Amount</th><th>Committee</th><th>Employer</th></tr>''
                 @ concat (map (\<lambda>c.
                     [CHR 0x0A] @ replicate 16 CHR '' '' @ ''<tr>'' @ [CHR 0x0A]
                     @ concat (map (\<lambda>x. replicate 20 CHR '' '' @ ''<td>'' @ x @ ''</td>''
                                         @ [CHR 0x0A])
                         [strftime lib (date c) ''%Y-%m-%d'',
                          ''$'' @ format_amount lib (amount c),
                          interpolate lib (committee_name c),
                          interpolate lib (employer_c c),
                          strftime lib (load_date c) ''%Y-%m-%d %H:%M:%S''])
                     @ replicate 16 CHR '' '' @ ''</tr>'' @ [CHR 0x0A]
                     @ replicate 16 CHR '' '')
                    (snd item))
                 @ ''</table><br>''
               else ''<p>No recent contributions found for '' @ fst item @ ''</p><br>'') d)
           @ ''</body></html>''"
proof -
  note mails = fetch_all_emails[OF fetched]
  have tr: "monitor_try lib ev w = pipeline lib ev cfg contributors w"
    using cfg by (simp add: monitor_try_def)
  have quiet: "response = (''No new contributions found'', 200)
          \<and> attempted w' = attempted w \<and> delivered w' = delivered w"
    if "\<not> any_values d"
    using run monitor_contributions_of_try(1)[of lib ev w _ w1]
      pipeline_quiet[OF fetched that] tr mails by simp
  have sent: "response = (''Alert sent successfully'', 200)
            \<and> attempted w' = attempted w @ [msg]
            \<and> delivered w' = delivered w @ [msg]"
    if "any_values d" "mime_error lib msg = None" "smtp_session ev (smtp cfg) msg = Sent"
    using run monitor_contributions_of_try(1)[of lib ev w]
      pipeline_sent[OF fetched that(1)] that(2,3) tr mails msg by simp
  have build: "response = (''Error: '' @ message lib e, 500)
            \<and> attempted w' = attempted w"
    if "any_values d" "mime_error lib msg = Some e" for e
    using run monitor_contributions_of_try(2)[of lib ev w e]
      pipeline_build_failed[OF fetched that(1)] that(2) tr mails msg by simp
  have failed: "response = (''Error: '' @ message lib e, 500)
            \<and> attempted w' = attempted w @ [msg]"
    if "any_values d" "mime_error lib msg = None"
       "smtp_session ev (smtp cfg) msg = Raised accepted e" for accepted e
    using run monitor_contributions_of_try(2)[of lib ev w e]
      pipeline_send_failed[OF fetched that(1)] that(2,3) tr mails msg by simp
  have keys: "map fst d = map name contributors"
    using fetch_all_keys_distinct[OF fetched] by (simp add: contributors_def)
  have body: "html_part msg =
           ''<html><body><h2>FEC Contribution Alert</h2>''
           @ concat (map (\<lambda>item.
               if snd item \<noteq> []
               then ''<h3>Contributions from '' @ fst item @ ''</h3>''
                 @ ''<table border='' @ [CHR 0x27] @ ''1'' @ [CHR 0x27] @ '' style=''
                 @ [CHR 0x27] @ ''border-collapse: collapse; width: 100%;'' @ [CHR 0x27]
                 @ ''>''
                 @ ''<tr><th>Date</th><th>Amount</th><th>Committee</th><th>Employer</th></tr>''
                 @ concat (map (\<lambda>c.
                     [CHR 0x0A] @ replicate 16 CHR '' '' @ ''<tr>'' @ [CHR 0x0A]
                     @ concat (map (\<lambda>x. replicate 20 CHR '' '' @ ''<td>'' @ x @ ''</td>''
                                         @ [CHR 0x0A])
                         [strftime lib (date c) ''%Y-%m-%d'',
                          ''$'' @ format_amount lib (amount c),
                          interpolate lib (committee_name c),
                          interpolate lib (employer_c c),
                          strftime lib (load_date c) ''%Y-%m-%d %H:%M:%S''])
                     @ replicate 16 CHR '' '' @ ''</tr>'' @ [CHR 0x0A]
                     @ replicate 16 CHR '' '')
                    (snd item))
                 @ ''</table><br>''
               else ''<p>No recent contributions found for '' @ fst item @ ''</p><br>'') d)
           @ ''</body></html>''"
    unfolding msg alert_email_def by (simp only: email.simps format_email_body_explicit)
  from quiet sent build failed keys body show ?thesis
    unfolding any_values_iff by blast
qed


text \<open>
  On the sample data the first contributor has two records and the alert is sent; with
  an API that answers only empty pages nothing is sent.
\<close>

lemma quiet_settings_loaded: "load_settings sample_lib quiet_env = Inr sample_settings"
  by (simp add: load_settings_def environ_item_def get_secret_def py_int_def sample_env_def
        quiet_env_def sample_lib_def sample_settings_def)

lemma quiet_registry_groups:
  "fst (fetch_all sample_lib quiet_env ''secret'' [] contributors start) = Inr quiet_groups"
  by (simp add: contributors_def fetch_defs default_days_back_load_def
        default_days_back_contrib_def sample_defs quiet_env_def quiet_groups_def)

lemma quiet_registry_run:
  "fetch_all sample_lib quiet_env (fec_api_key sample_settings) [] contributors start
     = (Inr quiet_groups,
        snd (fetch_all sample_lib quiet_env ''secret'' [] contributors start))"
  using quiet_registry_groups by (simp add: prod_eq_iff sample_settings_def)

lemma quiet_no_values: "\<not> any_values quiet_groups"
  by (simp add: any_values_def quiet_groups_def list_ex_iff)

theorem digest_decision_witness:
  "load_settings sample_lib sample_env = Inr sample_settings
   \<and> fst (fetch_all sample_lib sample_env ''secret'' [] contributors start) = Inr sample_groups
   \<and> any_values sample_groups
   \<and> fst (monitor_contributions sample_lib sample_env start)
       = (''Alert sent successfully'', 200)
   \<and> delivered (snd (monitor_contributions sample_lib sample_env start))
       = [alert_email sample_lib sample_env sample_settings sample_groups
            (snd (fetch_all sample_lib sample_env ''secret'' [] contributors start))]
   \<and> load_settings sample_lib quiet_env = Inr sample_settings
   \<and> fst (fetch_all sample_lib quiet_env ''secret'' [] contributors start) = Inr quiet_groups
   \<and> \<not> any_values quiet_groups
   \<and> fst (monitor_contributions sample_lib quiet_env start)
       = (''No new contributions found'', 200)
   \<and> attempted (snd (monitor_contributions sample_lib quiet_env start)) = []"
proof -
  let ?w1 = "snd (fetch_all sample_lib sample_env ''secret'' [] contributors start)"
  let ?msg = "alert_email sample_lib sample_env sample_settings sample_groups ?w1"
  have run: "monitor_contributions sample_lib sample_env start
      = (fst (monitor_contributions sample_lib sample_env start),
         snd (monitor_contributions sample_lib sample_env start))" by simp
  have built: "mime_error sample_lib ?msg = None"
    by (simp add: sample_lib_def)
  have ok: "smtp_session sample_env (smtp sample_settings) ?msg = Sent"
    by (simp add: sample_env_def)
  from digest_decision[OF sample_settings_loaded sample_registry_run run refl]
    sample_any_values built ok
  have sent: "fst (monitor_contributions sample_lib sample_env start)
                = (''Alert sent successfully'', 200)
            \<and> delivered (snd (monitor_contributions sample_lib sample_env start))
                = delivered start @ [?msg]"
    by blast
  have qrun: "monitor_contributions sample_lib quiet_env start
      = (fst (monitor_contributions sample_lib quiet_env start),
         snd (monitor_contributions sample_lib quiet_env start))" by simp
  from digest_decision[OF quiet_settings_loaded quiet_registry_run qrun refl]
    quiet_no_values
  have quiet: "fst (monitor_contributions sample_lib quiet_env start)
                = (''No new contributions found'', 200)
            \<and> attempted (snd (monitor_contributions sample_lib quiet_env start))
                = attempted start"
    by blast
  from sent quiet sample_settings_loaded sample_registry_groups sample_any_values
    quiet_settings_loaded quiet_registry_groups quiet_no_values
  show ?thesis by (simp add: start_def)
qed

lemma smtp_down_run:
  "monitor_contributions sample_lib smtp_down_env start =
     ((''Error: smtp down'', 500),
      (snd (fetch_all sample_lib sample_env ''secret'' [] contributors start))
         \<lparr>clock_reads := Suc (clock_reads
              (snd (fetch_all sample_lib sample_env ''secret'' [] contributors start))),
          attempted := attempted
              (snd (fetch_all sample_lib sample_env ''secret'' [] contributors start))
            @ [alert_email sample_lib smtp_down_env sample_settings sample_groups
                 (snd (fetch_all sample_lib sample_env ''secret'' [] contributors start))],
          stdout := stdout
              (snd (fetch_all sample_lib sample_env ''secret'' [] contributors start))
            @ [''Error sending email: smtp down'',
               ''Error in monitor_contributions: smtp down'']\<rparr>)"
proof -
  let ?w1 = "snd (fetch_all sample_lib sample_env ''secret'' [] contributors start)"
  have cfg: "load_settings sample_lib smtp_down_env = Inr sample_settings"
    by (simp add: smtp_down_env_def load_settings_smtp sample_settings_loaded)
  have fetched: "fetch_all sample_lib smtp_down_env (fec_api_key sample_settings) []
                   contributors start = (Inr sample_groups, ?w1)"
    by (simp add: smtp_down_env_def fetch_all_smtp sample_registry_run)
  have built: "mime_error sample_lib
                (alert_email sample_lib smtp_down_env sample_settings sample_groups ?w1) = None"
    by (simp add: sample_lib_def)
  have down: "smtp_session smtp_down_env (smtp sample_settings)
                (alert_email sample_lib smtp_down_env sample_settings sample_groups ?w1)
              = Raised False (ExternalError ''smtp down'')"
    by (simp add: smtp_down_env_def)
  have "monitor_try sample_lib smtp_down_env start =
          pipeline sample_lib smtp_down_env sample_settings contributors start"
    using cfg by (simp add: monitor_try_def)
  also note pipeline_send_failed[OF fetched sample_any_values built down]
  finally show ?thesis
    by (simp add: monitor_contributions_of_try(2))
qed

text \<open>
  Claim C2 as the specification states it fails when the SMTP server refuses the
  session: a contributor has records, yet no notification is sent and the run does not
  answer \<^verbatim>\<open>Alert sent successfully\<close>.
\<close>

theorem send_failure_counterexample:
  "fst (fetch_all sample_lib smtp_down_env ''secret'' [] contributors start) = Inr sample_groups
   \<and> any_values sample_groups
   \<and> fst (monitor_contributions sample_lib smtp_down_env start) = (''Error: smtp down'', 500)
   \<and> delivered (snd (monitor_contributions sample_lib smtp_down_env start)) = []"
proof -
  let ?w1 = "snd (fetch_all sample_lib sample_env ''secret'' [] contributors start)"
  have "fetch_all sample_lib sample_env ''secret'' [] contributors start
          = (fst (fetch_all sample_lib sample_env ''secret'' [] contributors start), ?w1)"
    by simp
  from fetch_all_emails[OF this] have none: "delivered ?w1 = []"
    by (simp add: start_def)
  have groups: "fst (fetch_all sample_lib smtp_down_env ''secret'' [] contributors start)
                  = Inr sample_groups"
    by (simp add: smtp_down_env_def fetch_all_smtp sample_registry_groups)
  have response: "fst (monitor_contributions sample_lib smtp_down_env start)
                    = (''Error: smtp down'', 500)"
    by (simp add: smtp_down_run)
  have "delivered (snd (monitor_contributions sample_lib smtp_down_env start)) = delivered ?w1"
    by (simp add: smtp_down_run)
  with none groups sample_any_values response show ?thesis by simp
qed







end
